theory Spec2Isabelle
  imports Main "HOL-Library.Multiset" "HOL-Library.List_Lexorder" "HOL-Library.Product_Lexorder"
begin

section \<open>Band data processing of Ideogram.js (src/js/bands/bands.js)\<close>

text \<open>
  The module resolves the taxa to draw, assembles the chromosomes of every taxon and
  tracks the longest chromosome seen, all on one mutable object \<open>ideo\<close>. The object
  becomes a record that every function takes and returns; a JavaScript \<open>TypeError\<close>
  (a property read on \<open>undefined\<close> or \<open>null\<close>, a call of a missing method) becomes
  the left injection of the result.
\<close>

subsection \<open>Values\<close>

datatype error = TypeError

text \<open>
  A taxon identifier is a number (an NCBI taxonomy id); \<open>Undefined\<close> is what reading index 0
  of an empty taxon list, or an unset \<open>config.taxid\<close>, gives. Used as a property key
  it is the key \<open>"undefined"\<close>. Being numeric, a taxid never is the key \<open>"bp"\<close> or
  \<open>"iscn"\<close> of \<open>ideo.maxLength\<close>.
\<close>

datatype jstaxid = Undefined | Taxid nat

text \<open>
  \<open>config.multiorganism\<close> is tested once with \<open>=== true\<close> and twice for truthiness:
  \<open>JTrue\<close> is the boolean \<open>true\<close>, \<open>JTruthy\<close> any other truthy value, \<open>JFalsy\<close>
  a falsy or missing one.
\<close>

datatype jsflag = JTrue | JTruthy | JFalsy

text \<open>
  An element of a configured chromosome list: a name, or an object with a name and a
  \<open>length\<close>. The stored lists are arrays of such elements; an array index that was never
  written is a hole (\<open>None\<close>).
\<close>

datatype chrom = ChrName string | ChrInfo string nat

datatype cval = Tok chrom | Arr "cval option list"

text \<open>The \<open>length\<close> property: of a string its length, of an object its field, of an array its length.\<close>

fun cval_length :: "cval \<Rightarrow> nat" where
  "cval_length (Tok (ChrName s)) = length s"
| "cval_length (Tok (ChrInfo n l)) = l"
| "cval_length (Arr xs) = length xs"

text \<open>
  \<open>config.chromosomes\<close> is an object that the code both hands around and writes to, so it
  lives in a store and is held by reference. It is an array (single organism) or a plain
  object keyed by taxid (multi-organism). Either way it is a set of properties; for an array
  the keys \<open>Taxid n\<close> are its indices, and writing at an index beyond \<open>length\<close> extends it.
\<close>

record chrsobj =
  is_array :: bool
  arr_length :: nat
  props :: "jstaxid \<rightharpoonup> cval"

datatype chrsref = Absent | Undef | Null | Ref nat

datatype chrsview = VUndefined | VNull | VObj chrsobj

text \<open>
  Coordinates, lengths and counts are natural numbers: positions on a chromosome in base pairs
  or ISCN units, and numbers of chromosomes. The maxima start from 0 and are compared with
  \<open>>\<close>, so nothing below 0 would ever be recorded.
\<close>

record range =
  start :: nat
  stop :: nat

record band =
  iscn_range :: range
  bp_range :: range

type_synonym bandsByChr = "(string \<times> band list) list"

record lengths =
  bp :: nat
  iscn :: nat

text \<open>\<open>ideo.maxLength\<close>: the global \<open>bp\<close> and \<open>iscn\<close>, and one entry per taxid.\<close>

record maxLength_rec = lengths +
  byTaxid :: "jstaxid \<rightharpoonup> lengths"

type_synonym raw = "string list"

record config =
  multiorganism :: jsflag
  taxid :: jstaxid
  taxids :: "jstaxid list option"
  chromosomes :: chrsref

record ideo =
  config :: config
  coordinateSystem :: string
  maxLength :: maxLength_rec
  numChromosomes :: nat
  bandData :: "(jstaxid \<rightharpoonup> raw) option"
  heap :: "chrsobj list"

text \<open>
  The two imported functions are parameters of the model: \<open>parseBands\<close> of \<open>./parse\<close>, which
  gets the raw band data of the taxon, the taxid and what \<open>chrs\<close> refers to at the time of the
  call, and returns the bands of every chromosome in the order of \<open>Object.keys\<close>; and the
  comparator \<open>naturalSort\<close> of the package \<open>es6-natural-sort\<close>.
\<close>

record env =
  parseBands :: "raw option \<Rightarrow> jstaxid \<Rightarrow> chrsview \<Rightarrow> error + bandsByChr"
  naturalSort :: "string \<Rightarrow> string \<Rightarrow> int"

subsection \<open>Objects and the store\<close>

definition deref :: "chrsobj list \<Rightarrow> nat \<Rightarrow> chrsobj option" where
  "deref h a = (if a < length h then Some (h ! a) else None)"

definition view :: "chrsobj list \<Rightarrow> chrsref \<Rightarrow> chrsview" where
  "view h r =
     (case r of
        Ref a \<Rightarrow> (case deref h a of Some obj \<Rightarrow> VObj obj | None \<Rightarrow> VUndefined)
      | Null \<Rightarrow> VNull
      | _ \<Rightarrow> VUndefined)"

text \<open>
  \<open>obj[key] = v\<close>. On an array a key \<open>Taxid n\<close> below \<open>2^32 - 1\<close> is an index, and \<open>length\<close>
  grows to hold it; any other key is a plain property.
\<close>

definition js_put :: "chrsobj \<Rightarrow> jstaxid \<Rightarrow> cval \<Rightarrow> chrsobj" where
  "js_put obj k v =
     obj\<lparr>props := (props obj)(k \<mapsto> v),
         arr_length :=
           (case k of
              Taxid n \<Rightarrow>
                if is_array obj \<and> arr_length obj \<le> n \<and> n < 4294967295 then Suc n
                else arr_length obj
            | Undefined \<Rightarrow> arr_length obj)\<rparr>"

text \<open>The elements of an array, index by index; a plain object has no \<open>length\<close>.\<close>

definition array_elems :: "chrsobj \<Rightarrow> cval option list" where
  "array_elems obj =
     (if is_array obj then map (\<lambda>n. props obj (Taxid n)) [0..<arr_length obj] else [])"

text \<open>An array with the given elements, as an array literal or \<open>slice\<close> builds it.\<close>

definition array_of :: "cval option list \<Rightarrow> chrsobj" where
  "array_of xs =
     \<lparr>is_array = True, arr_length = length xs,
      props = (\<lambda>k. case k of
                      Taxid n \<Rightarrow> if n < length xs then xs ! n else None
                    | Undefined \<Rightarrow> None)\<rparr>"

text \<open>\<open>obj.slice()\<close>: a new array with the indexed elements; a plain object has no such method.\<close>

definition js_slice :: "chrsobj \<Rightarrow> error + chrsobj" where
  "js_slice obj = (if is_array obj then Inr (array_of (array_elems obj)) else Inl TypeError)"

text \<open>\<open>ideo.config.chromosomes[taxid]\<close>, read and written.\<close>

definition get_chromosomes :: "ideo \<Rightarrow> jstaxid \<Rightarrow> cval option" where
  "get_chromosomes ideo t =
     (case chromosomes (config ideo) of
        Ref a \<Rightarrow> (case deref (heap ideo) a of Some obj \<Rightarrow> props obj t | None \<Rightarrow> None)
      | _ \<Rightarrow> None)"

definition put_chromosomes :: "ideo \<Rightarrow> jstaxid \<Rightarrow> cval \<Rightarrow> error + ideo" where
  "put_chromosomes ideo t v =
     (case chromosomes (config ideo) of
        Ref a \<Rightarrow>
          (case deref (heap ideo) a of
             Some obj \<Rightarrow> Inr (ideo\<lparr>heap := (heap ideo)[a := js_put obj t v]\<rparr>)
           | None \<Rightarrow> Inl TypeError)
      | _ \<Rightarrow> Inl TypeError)"

text \<open>\<open>ideo.config.chromosomes = {}\<close>.\<close>

definition new_chromosomes :: "ideo \<Rightarrow> ideo" where
  "new_chromosomes ideo =
     ideo\<lparr>config := (config ideo)\<lparr>chromosomes := Ref (length (heap ideo))\<rparr>,
          heap := heap ideo @ [\<lparr>is_array = False, arr_length = 0, props = Map.empty\<rparr>]\<rparr>"

subsection \<open>Sorting\<close>

text \<open>
  \<open>Array.prototype.sort\<close> with a comparator: stable, an element goes before another when
  the comparator is not positive. Insertion from the right gives the order every stable
  sort gives for a consistent comparator.
\<close>

fun js_insert :: "('a \<Rightarrow> 'a \<Rightarrow> int) \<Rightarrow> 'a \<Rightarrow> 'a list \<Rightarrow> 'a list" where
  "js_insert cmp x [] = [x]"
| "js_insert cmp x (y # ys) = (if cmp x y \<le> 0 then x # y # ys else y # js_insert cmp x ys)"

definition js_sort :: "('a \<Rightarrow> 'a \<Rightarrow> int) \<Rightarrow> 'a list \<Rightarrow> 'a list" where
  "js_sort cmp xs = foldr (js_insert cmp) xs []"

subsection \<open>The functions of bands.js\<close>

definition setTaxids :: "ideo \<Rightarrow> error + (jstaxid \<times> jstaxid list \<times> ideo)" where
  "setTaxids ideo =
     (if multiorganism (config ideo) = JTrue then
        (case taxids (config ideo) of
           None \<Rightarrow> Inl TypeError
         | Some ts \<Rightarrow> Inr (foldl (\<lambda>_ t. t) Undefined ts, ts, ideo\<lparr>coordinateSystem := ''bp''\<rparr>))
      else
        (case
           (if taxid (config ideo) = Undefined then
              (case taxids (config ideo) of
                 None \<Rightarrow> Inl TypeError
               | Some ts \<Rightarrow> Inr (case ts of [] \<Rightarrow> Undefined | t # _ \<Rightarrow> t))
            else Inr (taxid (config ideo)))
         of
           Inl e \<Rightarrow> Inl e
         | Inr t \<Rightarrow>
             Inr (t, [t], ideo\<lparr>config := (config ideo)\<lparr>taxid := t, taxids := Some [t]\<rparr>\<rparr>)))"

definition getBandsArray ::
  "string \<Rightarrow> bandsByChr \<Rightarrow> jstaxid \<Rightarrow> ideo \<Rightarrow> error + (band list list \<times> ideo)" where
  "getBandsArray chromosome bandsByChr t ideo =
     (case map_of bandsByChr chromosome of
        None \<Rightarrow> Inl TypeError
      | Some bands \<Rightarrow>
          if bands = [] then Inl TypeError
          else
            let chrLength = \<lparr>bp = stop (bp_range (last bands)), iscn = stop (iscn_range (last bands))\<rparr>;
                ml = maxLength ideo;
                m0 = (case byTaxid ml t of None \<Rightarrow> \<lparr>bp = 0, iscn = 0\<rparr> | Some m \<Rightarrow> m);
                m1 = (if iscn chrLength > iscn m0 then m0\<lparr>iscn := iscn chrLength\<rparr> else m0);
                g_iscn = (if iscn chrLength > iscn m0 \<and> iscn chrLength > iscn ml
                          then iscn chrLength else iscn ml);
                m2 = (if bp chrLength > bp m1 then m1\<lparr>bp := bp chrLength\<rparr> else m1);
                g_bp = (if bp chrLength > bp m1 \<and> bp chrLength > bp ml
                        then bp chrLength else bp ml)
            in Inr ([bands],
                    ideo\<lparr>maxLength := ml\<lparr>bp := g_bp, iscn := g_iscn,
                                           byTaxid := (byTaxid ml)(t \<mapsto> m2)\<rparr>\<rparr>))"

text \<open>The loop of \<open>setChrsByTaxidsWithBands\<close> over the sorted chromosome names.\<close>

fun bandsLoop ::
  "string list \<Rightarrow> bandsByChr \<Rightarrow> jstaxid \<Rightarrow> band list list \<Rightarrow> ideo \<Rightarrow> error + (band list list \<times> ideo)" where
  "bandsLoop [] bandsByChr t bandsArray ideo = Inr (bandsArray, ideo)"
| "bandsLoop (chromosome # cs) bandsByChr t bandsArray ideo =
     (case getBandsArray chromosome bandsByChr t ideo of
        Inl e \<Rightarrow> Inl e
      | Inr (chrBandsArray, ideo') \<Rightarrow> bandsLoop cs bandsByChr t (bandsArray @ chrBandsArray) ideo')"

definition setChrsByTaxidsWithBands ::
  "env \<Rightarrow> jstaxid \<Rightarrow> chrsref \<Rightarrow> band list list \<Rightarrow> ideo \<Rightarrow> error + (band list list \<times> ideo)" where
  "setChrsByTaxidsWithBands e t chrs bandsArray ideo =
     (case bandData ideo of
        None \<Rightarrow> Inl TypeError
      | Some bd \<Rightarrow>
          (case parseBands e (bd t) t (view (heap ideo) chrs) of
             Inl err \<Rightarrow> Inl err
           | Inr bandsByChr \<Rightarrow>
               let names = js_sort (naturalSort e) (map fst bandsByChr);
                   ideo1 = (if chromosomes (config ideo) = Absent \<or> chromosomes (config ideo) = Null
                            then new_chromosomes ideo else ideo)
               in (case put_chromosomes ideo1 t (Arr (map (\<lambda>c. Some (Tok (ChrName c))) names)) of
                     Inl err \<Rightarrow> Inl err
                   | Inr ideo2 \<Rightarrow>
                       (case get_chromosomes ideo2 t of
                          None \<Rightarrow> Inl TypeError
                        | Some v \<Rightarrow>
                            bandsLoop names bandsByChr t bandsArray
                              (ideo2\<lparr>numChromosomes := numChromosomes ideo2 + cval_length v\<rparr>)))))"

text \<open>The loop of the branch without bands: \<open>chr.length\<close> of a hole is a \<open>TypeError\<close>.\<close>

fun bpLoop :: "cval option list \<Rightarrow> ideo \<Rightarrow> error + ideo" where
  "bpLoop [] ideo = Inr ideo"
| "bpLoop (None # cs) ideo = Inl TypeError"
| "bpLoop (Some chr # cs) ideo =
     bpLoop cs
       (if cval_length chr > bp (maxLength ideo)
        then ideo\<lparr>maxLength := (maxLength ideo)\<lparr>bp := cval_length chr\<rparr>\<rparr>
        else ideo)"

definition setChromosomesByTaxid ::
  "env \<Rightarrow> jstaxid \<Rightarrow> chrsref \<Rightarrow> band list list \<Rightarrow> ideo \<Rightarrow> error + (band list list \<times> ideo)" where
  "setChromosomesByTaxid e t chrs bandsArray ideo =
     (if coordinateSystem ideo = ''iscn'' \<or> multiorganism (config ideo) \<noteq> JFalsy then
        setChrsByTaxidsWithBands e t chrs bandsArray ideo
      else if coordinateSystem ideo = ''bp'' then
        (case chrs of
           Ref a \<Rightarrow>
             (case deref (heap ideo) a of
                None \<Rightarrow> Inl TypeError
              | Some obj \<Rightarrow>
                  (case js_slice obj of
                     Inl err \<Rightarrow> Inl err
                   | Inr copy \<Rightarrow>
                       (case put_chromosomes ideo t (Arr (array_elems copy)) of
                          Inl err \<Rightarrow> Inl err
                        | Inr ideo1 \<Rightarrow>
                            (case get_chromosomes ideo1 t of
                               None \<Rightarrow> Inl TypeError
                             | Some v \<Rightarrow>
                                 (case deref (heap ideo1) a of
                                    None \<Rightarrow> Inl TypeError
                                  | Some obj' \<Rightarrow>
                                      (case bpLoop (array_elems obj')
                                              (ideo1\<lparr>numChromosomes :=
                                                       numChromosomes ideo1 + cval_length v\<rparr>) of
                                         Inl err \<Rightarrow> Inl err
                                       | Inr ideo2 \<Rightarrow> Inr (bandsArray, ideo2)))))))
         | _ \<Rightarrow> Inl TypeError)
      else Inr (bandsArray, ideo))"

text \<open>
  \<open>processBandData\<close>, lines 156 to 164: the value of the local \<open>chrs\<close>. It stays
  \<open>undefined\<close> without \<open>config.chromosomes\<close>; it is \<open>config.chromosomes\<close> itself when
  \<open>multiorganism\<close> is truthy, and a new array from \<open>slice\<close> otherwise.
\<close>

definition processBandData_chrs :: "ideo \<Rightarrow> error + (chrsref \<times> ideo)" where
  "processBandData_chrs ideo =
     (case chromosomes (config ideo) of
        Absent \<Rightarrow> Inr (Undef, ideo)
      | c \<Rightarrow>
          if multiorganism (config ideo) \<noteq> JFalsy then Inr (c, ideo)
          else
            (case c of
               Ref a \<Rightarrow>
                 (case deref (heap ideo) a of
                    None \<Rightarrow> Inl TypeError
                  | Some obj \<Rightarrow>
                      (case js_slice obj of
                         Inl err \<Rightarrow> Inl err
                       | Inr copy \<Rightarrow>
                           Inr (Ref (length (heap ideo)), ideo\<lparr>heap := heap ideo @ [copy]\<rparr>)))
             | _ \<Rightarrow> Inl TypeError))"

text \<open>The loop of \<open>processBandData\<close> over the taxids.\<close>

fun taxidsLoop ::
  "env \<Rightarrow> jstaxid list \<Rightarrow> chrsref \<Rightarrow> band list list \<Rightarrow> ideo \<Rightarrow> error + (band list list \<times> ideo)" where
  "taxidsLoop e [] chrs bandsArray ideo = Inr (bandsArray, ideo)"
| "taxidsLoop e (t # ts) chrs bandsArray ideo =
     (case setChromosomesByTaxid e t chrs bandsArray ideo of
        Inl err \<Rightarrow> Inl err
      | Inr (bandsArray', ideo') \<Rightarrow> taxidsLoop e ts chrs bandsArray' ideo')"

text \<open>
  \<open>reportPerformance\<close> only writes the elapsed time to the console when \<open>config.debug\<close> is
  set; it changes nothing and is left out.
\<close>

definition processBandData :: "env \<Rightarrow> ideo \<Rightarrow> error + (band list list \<times> ideo)" where
  "processBandData e ideo =
     (case setTaxids ideo of
        Inl err \<Rightarrow> Inl err
      | Inr (t, ts, ideo1) \<Rightarrow>
          (case processBandData_chrs ideo1 of
             Inl err \<Rightarrow> Inl err
           | Inr (chrs, ideo2) \<Rightarrow> taxidsLoop e ts chrs [] ideo2))"

subsection \<open>The banded path alone\<close>

text \<open>
  The loop over the taxids in which every taxon is assembled by \<open>setChrsByTaxidsWithBands\<close>:
  what the specification says of a multi-organism configuration, to compare with \<open>taxidsLoop\<close>.
\<close>

fun bandedLoop ::
  "env \<Rightarrow> jstaxid list \<Rightarrow> chrsref \<Rightarrow> band list list \<Rightarrow> ideo \<Rightarrow> error + (band list list \<times> ideo)" where
  "bandedLoop e [] chrs bandsArray ideo = Inr (bandsArray, ideo)"
| "bandedLoop e (t # ts) chrs bandsArray ideo =
     (case setChrsByTaxidsWithBands e t chrs bandsArray ideo of
        Inl err \<Rightarrow> Inl err
      | Inr (bandsArray', ideo') \<Rightarrow> bandedLoop e ts chrs bandsArray' ideo')"

subsection \<open>Natural order of chromosome names\<close>

text \<open>
  Modelled from the spec: the comparator \<open>naturalSort\<close> of the package \<open>es6-natural-sort\<close>,
  which is not among the sources. The specification calls it a string ordering that treats
  embedded numbers numerically. A name is cut into its maximal runs of digits and of other
  characters; names are compared run by run, a run of digits by its value and before any other
  run, other runs by their character codes.
\<close>

datatype chunk = Digits string | Text string

definition is_digit :: "char \<Rightarrow> bool" where
  "is_digit c = (48 \<le> (of_char c :: nat) \<and> (of_char c :: nat) \<le> 57)"

fun chunks :: "string \<Rightarrow> chunk list" where
  "chunks [] = []"
| "chunks (c # cs) =
     (if is_digit c then
        (case chunks cs of Digits ds # r \<Rightarrow> Digits (c # ds) # r | r \<Rightarrow> Digits [c] # r)
      else
        (case chunks cs of Text s # r \<Rightarrow> Text (c # s) # r | r \<Rightarrow> Text [c] # r))"

fun chunk_key :: "chunk \<Rightarrow> nat \<times> nat list" where
  "chunk_key (Digits ds) = (0, [foldl (\<lambda>n c. 10 * n + (of_char c - 48)) 0 ds])"
| "chunk_key (Text s) = (1, map of_char s)"

definition natural_key :: "string \<Rightarrow> (nat \<times> nat list) list" where
  "natural_key s = map chunk_key (chunks s)"

text \<open>
  Modelled from the spec: \<open>naturalSort(a, b)\<close> of \<open>es6-natural-sort\<close>, negative when \<open>a\<close>
  sorts first, positive when \<open>b\<close> does, 0 when neither does.
\<close>

definition naturalSort_spec :: "string \<Rightarrow> string \<Rightarrow> int" where
  "naturalSort_spec a b =
     (if natural_key a < natural_key b then - 1 else if natural_key b < natural_key a then 1 else 0)"

subsection \<open>Notions of the statements\<close>

text \<open>What the holder of the reference \<open>chrs\<close> reads at a key.\<close>

definition chrs_seen :: "ideo \<Rightarrow> chrsref \<Rightarrow> jstaxid \<Rightarrow> cval option" where
  "chrs_seen s chrs t = (case view (heap s) chrs of VObj obj \<Rightarrow> props obj t | _ \<Rightarrow> None)"

text \<open>The state a run ends in, when it returns.\<close>

definition result_state :: "error + (band list list \<times> ideo) \<Rightarrow> ideo option" where
  "result_state r = (case r of Inl err \<Rightarrow> None | Inr (ba, s) \<Rightarrow> Some s)"

text \<open>The \<open>length\<close> of \<open>ideo.config.chromosomes[taxid]\<close>, 0 when nothing is stored.\<close>

definition storedLength :: "ideo \<Rightarrow> jstaxid \<Rightarrow> nat" where
  "storedLength s t = (case get_chromosomes s t of None \<Rightarrow> 0 | Some v \<Rightarrow> cval_length v)"

text \<open>
  The global maxima are the maxima of the entries per taxid: no entry exceeds them, and each
  of them is 0 or the value of some entry.
\<close>

definition globalIsMax :: "maxLength_rec \<Rightarrow> bool" where
  "globalIsMax ml \<longleftrightarrow>
     (\<forall>t m. byTaxid ml t = Some m \<longrightarrow> bp m \<le> bp ml \<and> iscn m \<le> iscn ml) \<and>
     (bp ml = 0 \<or> (\<exists>t m. byTaxid ml t = Some m \<and> bp m = bp ml)) \<and>
     (iscn ml = 0 \<or> (\<exists>t m. byTaxid ml t = Some m \<and> iscn m = iscn ml))"

text \<open>Every entry per taxid is still there, with maxima that are not smaller.\<close>

definition taxonMaximaGrow :: "maxLength_rec \<Rightarrow> maxLength_rec \<Rightarrow> bool" where
  "taxonMaximaGrow ml ml' \<longleftrightarrow>
     (\<forall>t m. byTaxid ml t = Some m \<longrightarrow>
        (\<exists>m'. byTaxid ml' t = Some m' \<and> bp m \<le> bp m' \<and> iscn m \<le> iscn m'))"

text \<open>No entry per taxid exceeds the global maxima.\<close>

definition bounded :: "maxLength_rec \<Rightarrow> bool" where
  "bounded ml \<longleftrightarrow> (\<forall>t m. byTaxid ml t = Some m \<longrightarrow> bp m \<le> bp ml \<and> iscn m \<le> iscn ml)"

text \<open>
  The length of a chromosome, the stop coordinates of its last band, and what lines 61 to 77
  of \<open>getBandsArray\<close> make of \<open>ideo.maxLength\<close> for a chromosome of that length.
\<close>

definition chrLength :: "band list \<Rightarrow> lengths" where
  "chrLength bands = \<lparr>bp = stop (bp_range (last bands)), iscn = stop (iscn_range (last bands))\<rparr>"

definition taxonEntry :: "maxLength_rec \<Rightarrow> jstaxid \<Rightarrow> lengths" where
  "taxonEntry ml t = (case byTaxid ml t of None \<Rightarrow> \<lparr>bp = 0, iscn = 0\<rparr> | Some m \<Rightarrow> m)"

definition recordLength :: "jstaxid \<Rightarrow> lengths \<Rightarrow> maxLength_rec \<Rightarrow> maxLength_rec" where
  "recordLength t l ml =
     ml\<lparr>bp := (if bp (taxonEntry ml t) < bp l then max (bp ml) (bp l) else bp ml),
        iscn := (if iscn (taxonEntry ml t) < iscn l then max (iscn ml) (iscn l) else iscn ml),
        byTaxid := (byTaxid ml)(t \<mapsto> (taxonEntry ml t)\<lparr>iscn := max (iscn (taxonEntry ml t)) (iscn l),
                                                         bp := max (bp (taxonEntry ml t)) (bp l)\<rparr>)\<rparr>"

text \<open>
  The bands of a taxon as the run gets them: what the parser returns when the taxon is
  assembled in state \<open>s\<close>, and nothing on the branch without bands. \<open>runBands\<close> lists them
  for the taxa of a run, each in the state the run has reached; \<open>sortedBands\<close> are the band
  lists of one taxon in the sorted order of its chromosome names.
\<close>

definition taxonBands :: "env \<Rightarrow> jstaxid \<Rightarrow> chrsref \<Rightarrow> ideo \<Rightarrow> bandsByChr" where
  "taxonBands e t chrs s =
     (if coordinateSystem s = ''iscn'' \<or> multiorganism (config s) \<noteq> JFalsy then
        (case bandData s of
           None \<Rightarrow> []
         | Some bd \<Rightarrow>
             (case parseBands e (bd t) t (view (heap s) chrs) of Inl err \<Rightarrow> [] | Inr bbc \<Rightarrow> bbc))
      else [])"

fun runBands :: "env \<Rightarrow> jstaxid list \<Rightarrow> chrsref \<Rightarrow> ideo \<Rightarrow> bandsByChr list" where
  "runBands e [] chrs s = []"
| "runBands e (t # ts) chrs s =
     taxonBands e t chrs s #
       (case setChromosomesByTaxid e t chrs [] s of
          Inl err \<Rightarrow> []
        | Inr (ba, s') \<Rightarrow> runBands e ts chrs s')"

definition bandsOf :: "bandsByChr \<Rightarrow> string list \<Rightarrow> band list list" where
  "bandsOf bbc names =
     concat (map (\<lambda>c. case map_of bbc c of None \<Rightarrow> [] | Some bands \<Rightarrow> [bands]) names)"

definition sortedBands :: "env \<Rightarrow> bandsByChr \<Rightarrow> band list list" where
  "sortedBands e bbc = bandsOf bbc (js_sort (naturalSort e) (map fst bbc))"

text \<open>
  The contract of the parser, for the taxa of a run: whatever \<open>chrs\<close> holds, it returns a
  mapping in which every band list is non-empty.
\<close>

definition parserContract :: "env \<Rightarrow> (jstaxid \<rightharpoonup> raw) \<Rightarrow> jstaxid list \<Rightarrow> bool" where
  "parserContract e bd ts \<longleftrightarrow>
     (\<forall>t \<in> set ts. \<forall>v. \<exists>bbc. parseBands e (bd t) t v = Inr bbc \<and>
        (\<forall>c bands. (c, bands) \<in> set bbc \<longrightarrow> bands \<noteq> []))"

text \<open>
  The chromosomes of a run over \<open>ts\<close> that got the bands \<open>rb\<close>, each as its taxid and its
  length, in the order of processing; and the lengths of those of taxon \<open>t\<close>.
\<close>

definition runLengths :: "env \<Rightarrow> jstaxid list \<Rightarrow> bandsByChr list \<Rightarrow> (jstaxid \<times> lengths) list" where
  "runLengths e ts rb =
     concat (map (\<lambda>(u, bbc). map (\<lambda>bands. (u, chrLength bands)) (sortedBands e bbc)) (zip ts rb))"

definition taxonLengths :: "env \<Rightarrow> jstaxid list \<Rightarrow> bandsByChr list \<Rightarrow> jstaxid \<Rightarrow> lengths list" where
  "taxonLengths e ts rb t = map snd (filter (\<lambda>(u, l). u = t) (runLengths e ts rb))"

text \<open>\<open>recordLength\<close> for one chromosome after the other.\<close>

definition recordAll :: "(jstaxid \<times> lengths) list \<Rightarrow> maxLength_rec \<Rightarrow> maxLength_rec" where
  "recordAll evs ml = fold (\<lambda>(t, l). recordLength t l) evs ml"

subsection \<open>Example configurations\<close>

definition band_ex :: "nat \<Rightarrow> nat \<Rightarrow> band" where
  "band_ex i b = \<lparr>iscn_range = \<lparr>start = 0, stop = i\<rparr>, bp_range = \<lparr>start = 0, stop = b\<rparr>\<rparr>"

text \<open>A parser for the examples: three chromosomes for taxon 9606, one for any other.\<close>

definition parse_ex :: "raw option \<Rightarrow> jstaxid \<Rightarrow> chrsview \<Rightarrow> error + bandsByChr" where
  "parse_ex r t v =
     (case r of
        None \<Rightarrow> Inl TypeError
      | Some lines \<Rightarrow>
          if t = Taxid 9606 then
            Inr [(''chr10'', [band_ex 30 300]),
                 (''chr2'', [band_ex 20 200, band_ex 50 500]),
                 (''chr1'', [band_ex 40 400, band_ex 100 900])]
          else Inr [(''chr1'', [band_ex 80 1200])])"

definition env_ex :: env where
  "env_ex = \<lparr>parseBands = parse_ex, naturalSort = naturalSort_spec\<rparr>"

definition fresh_maxLength :: maxLength_rec where
  "fresh_maxLength = \<lparr>bp = 0, iscn = 0, byTaxid = Map.empty\<rparr>"

text \<open>Two organisms, \<open>chromosomes: {9606: ['chr2', 'chr1'], 10090: ['chr1']}\<close>.\<close>

definition ideo_multi :: ideo where
  "ideo_multi =
     \<lparr>config = \<lparr>multiorganism = JTrue, taxid = Undefined,
                 taxids = Some [Taxid 9606, Taxid 10090], chromosomes = Ref 0\<rparr>,
      coordinateSystem = ''iscn'',
      maxLength = fresh_maxLength,
      numChromosomes = 0,
      bandData = Some [Taxid 9606 \<mapsto> [''human''], Taxid 10090 \<mapsto> [''mouse'']],
      heap = [\<lparr>is_array = False, arr_length = 0,
               props = [Taxid 9606 \<mapsto> Arr [Some (Tok (ChrName ''chr2'')), Some (Tok (ChrName ''chr1''))],
                        Taxid 10090 \<mapsto> Arr [Some (Tok (ChrName ''chr1''))]]\<rparr>]\<rparr>"

text \<open>One organism with band data, \<open>taxid: 9606\<close> and no \<open>chromosomes\<close>.\<close>

definition ideo_iscn :: ideo where
  "ideo_iscn =
     \<lparr>config = \<lparr>multiorganism = JFalsy, taxid = Taxid 9606, taxids = None, chromosomes = Absent\<rparr>,
      coordinateSystem = ''iscn'',
      maxLength = fresh_maxLength,
      numChromosomes = 0,
      bandData = Some [Taxid 9606 \<mapsto> [''human'']],
      heap = []\<rparr>"

text \<open>
  One organism without band data, \<open>taxids: [9606]\<close> and
  \<open>chromosomes: [{name: '1', length: 248}, {name: '2', length: 242}, 'MT']\<close>.
\<close>

definition chrs_ex :: "cval list" where
  "chrs_ex = [Tok (ChrInfo ''1'' 248), Tok (ChrInfo ''2'' 242), Tok (ChrName ''MT'')]"

definition ideo_bp :: ideo where
  "ideo_bp =
     \<lparr>config = \<lparr>multiorganism = JFalsy, taxid = Undefined, taxids = Some [Taxid 9606],
                 chromosomes = Ref 0\<rparr>,
      coordinateSystem = ''bp'',
      maxLength = fresh_maxLength,
      numChromosomes = 0,
      bandData = None,
      heap = [array_of (map Some chrs_ex)]\<rparr>"

text \<open>A state in which taxon 9606 has a chromosome of 500 bp and 50 ISCN units behind it.\<close>

definition ideo_seen :: ideo where
  "ideo_seen =
     ideo_iscn\<lparr>maxLength := \<lparr>bp = 500, iscn = 50, byTaxid = [Taxid 9606 \<mapsto> \<lparr>bp = 500, iscn = 50\<rparr>]\<rparr>\<rparr>"

section \<open>Properties\<close>

subsection \<open>What a step leaves alone\<close>

lemma getBandsArray_frame:
  "getBandsArray c bbc t s = Inr (x, s') \<Longrightarrow>
     config s' = config s \<and> coordinateSystem s' = coordinateSystem s \<and>
     numChromosomes s' = numChromosomes s \<and> bandData s' = bandData s \<and> heap s' = heap s"
  by (auto simp: getBandsArray_def Let_def split: option.splits if_splits)

lemma bandsLoop_frame:
  "bandsLoop cs bbc t ba s = Inr (ba', s') \<Longrightarrow>
     config s' = config s \<and> coordinateSystem s' = coordinateSystem s \<and>
     numChromosomes s' = numChromosomes s \<and> bandData s' = bandData s \<and> heap s' = heap s"
proof (induction cs arbitrary: ba s)
  case Nil
  then show ?case by simp
next
  case (Cons c cs)
  from Cons.prems obtain x s1 where
    g: "getBandsArray c bbc t s = Inr (x, s1)" and l: "bandsLoop cs bbc t (ba @ x) s1 = Inr (ba', s')"
    by (auto split: sum.splits)
  from getBandsArray_frame[OF g] Cons.IH[OF l] show ?case by simp
qed

lemma put_chromosomes_frame:
  "put_chromosomes s t v = Inr s' \<Longrightarrow>
     config s' = config s \<and> coordinateSystem s' = coordinateSystem s \<and>
     numChromosomes s' = numChromosomes s \<and> bandData s' = bandData s \<and>
     maxLength s' = maxLength s \<and> length (heap s') = length (heap s)"
  by (auto simp: put_chromosomes_def split: chrsref.splits option.splits)

lemma new_chromosomes_frame:
  "multiorganism (config (new_chromosomes s)) = multiorganism (config s) \<and>
   taxid (config (new_chromosomes s)) = taxid (config s) \<and>
   taxids (config (new_chromosomes s)) = taxids (config s) \<and>
   coordinateSystem (new_chromosomes s) = coordinateSystem s \<and>
   numChromosomes (new_chromosomes s) = numChromosomes s \<and>
   bandData (new_chromosomes s) = bandData s \<and>
   maxLength (new_chromosomes s) = maxLength s"
  by (simp add: new_chromosomes_def)

text \<open>The pieces of a successful call of \<open>setChrsByTaxidsWithBands\<close>.\<close>

lemma setChrsByTaxidsWithBands_InrD:
  assumes "setChrsByTaxidsWithBands e t chrs ba s = Inr (ba', s')"
  obtains bd bbc s2 v where
    "bandData s = Some bd"
    "parseBands e (bd t) t (view (heap s) chrs) = Inr bbc"
    "put_chromosomes (if chromosomes (config s) = Absent \<or> chromosomes (config s) = Null
                      then new_chromosomes s else s) t
       (Arr (map (\<lambda>c. Some (Tok (ChrName c))) (js_sort (naturalSort e) (map fst bbc)))) = Inr s2"
    "get_chromosomes s2 t = Some v"
    "bandsLoop (js_sort (naturalSort e) (map fst bbc)) bbc t ba
       (s2\<lparr>numChromosomes := numChromosomes s2 + cval_length v\<rparr>) = Inr (ba', s')"
  using assms
  by (auto simp: setChrsByTaxidsWithBands_def Let_def split: option.splits sum.splits)

lemma setChrsByTaxidsWithBands_flags:
  assumes "setChrsByTaxidsWithBands e t chrs ba s = Inr (ba', s')"
  shows "multiorganism (config s') = multiorganism (config s) \<and>
         coordinateSystem s' = coordinateSystem s \<and> bandData s' = bandData s \<and>
         taxids (config s') = taxids (config s) \<and> taxid (config s') = taxid (config s)"
proof -
  define s1 where "s1 = (if chromosomes (config s) = Absent \<or> chromosomes (config s) = Null
                         then new_chromosomes s else s)"
  from assms obtain bbc s2 v where
    p: "put_chromosomes s1 t
          (Arr (map (\<lambda>c. Some (Tok (ChrName c))) (js_sort (naturalSort e) (map fst bbc)))) = Inr s2"
    and l: "bandsLoop (js_sort (naturalSort e) (map fst bbc)) bbc t ba
              (s2\<lparr>numChromosomes := numChromosomes s2 + cval_length v\<rparr>) = Inr (ba', s')"
    unfolding s1_def by (rule setChrsByTaxidsWithBands_InrD)
  have "multiorganism (config s1) = multiorganism (config s) \<and>
        coordinateSystem s1 = coordinateSystem s \<and> bandData s1 = bandData s \<and>
        taxids (config s1) = taxids (config s) \<and> taxid (config s1) = taxid (config s)"
    by (simp add: s1_def new_chromosomes_frame)
  with put_chromosomes_frame[OF p] bandsLoop_frame[OF l]
  show ?thesis by simp
qed

lemma taxidsLoop_banded:
  "multiorganism (config s) \<noteq> JFalsy \<Longrightarrow> taxidsLoop e ts chrs ba s = bandedLoop e ts chrs ba s"
proof (induction ts arbitrary: ba s)
  case Nil
  then show ?case by simp
next
  case (Cons t ts)
  have step: "setChromosomesByTaxid e t chrs ba s = setChrsByTaxidsWithBands e t chrs ba s"
    using Cons.prems by (simp add: setChromosomesByTaxid_def)
  show ?case
  proof (cases "setChrsByTaxidsWithBands e t chrs ba s")
    case (Inl err)
    with step show ?thesis by simp
  next
    case (Inr r)
    obtain ba1 s1 where r: "r = (ba1, s1)" by (cases r)
    from Inr r setChrsByTaxidsWithBands_flags[of e t chrs ba s ba1 s1] Cons.prems
    have "multiorganism (config s1) \<noteq> JFalsy" by simp
    from Cons.IH[OF this] Inr r step show ?thesis by simp
  qed
qed

subsection \<open>Taxon resolution\<close>

text \<open>
  Claim C1. When \<open>config.multiorganism\<close> is \<open>true\<close> and the taxon list is there,
  \<open>setTaxids\<close> returns the list as it is and sets the coordinate system to \<open>bp\<close>. All the same,
  in every state with that flag and that coordinate system \<open>setChromosomesByTaxid\<close> is
  \<open>setChrsByTaxidsWithBands\<close>, and the whole of \<open>processBandData\<close> runs the banded loop: every
  taxon is assembled from parsed bands, none by the branch for \<open>bp\<close>.
\<close>

theorem multiorganism_forces_bp_but_banded_assembly:
  assumes "multiorganism (config ideo) = JTrue" and "taxids (config ideo) = Some ts"
  shows "setTaxids ideo = Inr (foldl (\<lambda>_ t. t) Undefined ts, ts, ideo\<lparr>coordinateSystem := ''bp''\<rparr>)
       \<and> (multiorganism (config s) = JTrue \<and> coordinateSystem s = ''bp'' \<longrightarrow>
             setChromosomesByTaxid e tx chrs ba s = setChrsByTaxidsWithBands e tx chrs ba s)
       \<and> processBandData e ideo =
           (case processBandData_chrs (ideo\<lparr>coordinateSystem := ''bp''\<rparr>) of
              Inl err \<Rightarrow> Inl err
            | Inr (chrs, ideo2) \<Rightarrow> bandedLoop e ts chrs [] ideo2)"
proof -
  have a: "setTaxids ideo = Inr (foldl (\<lambda>_ t. t) Undefined ts, ts, ideo\<lparr>coordinateSystem := ''bp''\<rparr>)"
    using assms by (simp add: setTaxids_def)
  have b: "\<And>chrs ideo2. processBandData_chrs (ideo\<lparr>coordinateSystem := ''bp''\<rparr>) = Inr (chrs, ideo2)
            \<Longrightarrow> multiorganism (config ideo2) \<noteq> JFalsy"
    using assms(1) by (auto simp: processBandData_chrs_def split: chrsref.splits)
  have c: "processBandData e ideo =
           (case processBandData_chrs (ideo\<lparr>coordinateSystem := ''bp''\<rparr>) of
              Inl err \<Rightarrow> Inl err
            | Inr (chrs, ideo2) \<Rightarrow> bandedLoop e ts chrs [] ideo2)"
    using a b by (auto simp: processBandData_def taxidsLoop_banded split: sum.splits)
  show ?thesis using a c by (simp add: setChromosomesByTaxid_def)
qed

theorem multiorganism_forces_bp_but_banded_assembly_witness:
  "setTaxids ideo_multi =
     Inr (Taxid 10090, [Taxid 9606, Taxid 10090], ideo_multi\<lparr>coordinateSystem := ''bp''\<rparr>)
   \<and> setChromosomesByTaxid env_ex (Taxid 9606) (Ref 0) [] (ideo_multi\<lparr>coordinateSystem := ''bp''\<rparr>) =
       setChrsByTaxidsWithBands env_ex (Taxid 9606) (Ref 0) [] (ideo_multi\<lparr>coordinateSystem := ''bp''\<rparr>)
   \<and> processBandData env_ex ideo_multi =
       bandedLoop env_ex [Taxid 9606, Taxid 10090] (Ref 0) [] (ideo_multi\<lparr>coordinateSystem := ''bp''\<rparr>)"
  using multiorganism_forces_bp_but_banded_assembly
          [of ideo_multi "[Taxid 9606, Taxid 10090]" "ideo_multi\<lparr>coordinateSystem := ''bp''\<rparr>"
              env_ex "Taxid 9606" "Ref 0" "[]"]
  by (simp add: ideo_multi_def processBandData_chrs_def)

text \<open>
  Claim C9. When \<open>config.multiorganism\<close> is not \<open>true\<close> and \<open>config.taxid\<close> is not set,
  \<open>setTaxids\<close> takes the first element of \<open>config.taxids\<close> as the taxid, stores it in
  \<open>config.taxid\<close>, returns it with the list that holds it alone, and stores that list in
  \<open>config.taxids\<close>.
\<close>

theorem setTaxids_default_is_first_taxid:
  assumes "multiorganism (config ideo) \<noteq> JTrue" and "taxid (config ideo) = Undefined"
    and "taxids (config ideo) = Some (t # ts)"
  shows "setTaxids ideo =
           Inr (t, [t], ideo\<lparr>config := (config ideo)\<lparr>taxid := t, taxids := Some [t]\<rparr>\<rparr>)"
  using assms by (simp add: setTaxids_def)

theorem setTaxids_default_is_first_taxid_witness:
  "setTaxids ideo_bp =
     Inr (Taxid 9606, [Taxid 9606],
          ideo_bp\<lparr>config := (config ideo_bp)\<lparr>taxid := Taxid 9606, taxids := Some [Taxid 9606]\<rparr>\<rparr>)"
  using setTaxids_default_is_first_taxid [of ideo_bp "Taxid 9606" "[]"]
  by (simp add: ideo_bp_def)

subsection \<open>The branch without bands\<close>

lemma array_elems_array_of: "array_elems (array_of xs) = xs"
proof -
  have "map (\<lambda>n. if n < length xs then xs ! n else None) [0..<length xs] = map ((!) xs) [0..<length xs]"
    by (rule map_cong) auto
  then show ?thesis by (simp add: array_elems_def array_of_def map_nth)
qed

lemma is_array_array_of: "is_array (array_of xs)"
  by (simp add: array_of_def)

lemma bpLoop_frame:
  "bpLoop xs s = Inr s' \<Longrightarrow>
     config s' = config s \<and> coordinateSystem s' = coordinateSystem s \<and>
     numChromosomes s' = numChromosomes s \<and> bandData s' = bandData s \<and> heap s' = heap s \<and>
     byTaxid (maxLength s') = byTaxid (maxLength s) \<and> iscn (maxLength s') = iscn (maxLength s) \<and>
     bp (maxLength s) \<le> bp (maxLength s')"
proof (induction xs s rule: bpLoop.induct)
  case (1 ideo)
  then show ?case by simp
next
  case (2 cs ideo)
  then show ?case by simp
next
  case (3 chr cs ideo)
  then show ?case by (auto split: if_splits)
qed

lemma Max_insert_absorb:
  fixes a c :: nat
  assumes "finite S" and "a \<le> c" and "c \<in> S"
  shows "Max (insert a S) = Max S"
proof -
  have "c \<le> Max S" using assms(1,3) by (rule Max_ge)
  with assms(2) have "a \<le> Max S" by linarith
  moreover have "S \<noteq> {}" using assms(3) by auto
  ultimately show ?thesis using assms(1) by (simp add: max_absorb2)
qed

lemma bpLoop_Some:
  "bpLoop (map Some cs) s =
     Inr (s\<lparr>maxLength := (maxLength s)\<lparr>bp := Max (insert (bp (maxLength s)) (cval_length ` set cs))\<rparr>\<rparr>)"
proof (induction cs arbitrary: s)
  case Nil
  then show ?case by simp
next
  case (Cons c cs)
  define S where "S = cval_length ` set cs"
  have fin: "finite S" by (simp add: S_def)
  show ?case
  proof (cases "cval_length c > bp (maxLength s)")
    case True
    have "Max (insert (bp (maxLength s)) (insert (cval_length c) S)) = Max (insert (cval_length c) S)"
      by (rule Max_insert_absorb[where c = "cval_length c"]) (use True fin in auto)
    with True show ?thesis by (simp add: Cons.IH S_def)
  next
    case False
    have "Max (insert (cval_length c) (insert (bp (maxLength s)) S)) = Max (insert (bp (maxLength s)) S)"
      by (rule Max_insert_absorb[where c = "bp (maxLength s)"]) (use False fin in auto)
    then have "Max (insert (bp (maxLength s)) (insert (cval_length c) S)) = Max (insert (bp (maxLength s)) S)"
      by (simp add: insert_commute)
    with False show ?thesis by (simp add: Cons.IH S_def)
  qed
qed

lemma setChromosomesByTaxid_bp_InrD:
  assumes "setChromosomesByTaxid e t chrs ba s = Inr (ba', s')"
    and "multiorganism (config s) = JFalsy" and "coordinateSystem s = ''bp''"
  obtains a obj s1 v obj' where
    "chrs = Ref a" "deref (heap s) a = Some obj" "is_array obj"
    "put_chromosomes s t (Arr (array_elems obj)) = Inr s1"
    "get_chromosomes s1 t = Some v"
    "deref (heap s1) a = Some obj'"
    "bpLoop (array_elems obj') (s1\<lparr>numChromosomes := numChromosomes s1 + cval_length v\<rparr>) = Inr s'"
    "ba' = ba"
  using assms
  by (auto simp: setChromosomesByTaxid_def js_slice_def array_elems_array_of
           split: chrsref.splits option.splits sum.splits if_splits)

lemma setTaxids_frame:
  "setTaxids s = Inr (t, ts, s') \<Longrightarrow>
     maxLength s' = maxLength s \<and> numChromosomes s' = numChromosomes s \<and> heap s' = heap s \<and>
     bandData s' = bandData s \<and> multiorganism (config s') = multiorganism (config s) \<and>
     chromosomes (config s') = chromosomes (config s) \<and> taxids (config s') = Some ts \<and>
     (multiorganism (config s) \<noteq> JTrue \<longrightarrow> coordinateSystem s' = coordinateSystem s)"
  by (auto simp: setTaxids_def split: option.splits if_splits sum.splits)

lemma processBandData_chrs_frame:
  "processBandData_chrs s = Inr (chrs, s') \<Longrightarrow>
     maxLength s' = maxLength s \<and> numChromosomes s' = numChromosomes s \<and>
     bandData s' = bandData s \<and> config s' = config s \<and> coordinateSystem s' = coordinateSystem s"
  by (auto simp: processBandData_chrs_def split: chrsref.splits option.splits if_splits sum.splits)


lemma put_get_chromosomes:
  "put_chromosomes s t v = Inr s' \<Longrightarrow> get_chromosomes s' t = Some v"
  by (auto simp: put_chromosomes_def get_chromosomes_def deref_def js_put_def
           split: chrsref.splits option.splits if_splits)

lemma put_get_chromosomes_other:
  "put_chromosomes s t v = Inr s' \<Longrightarrow> u \<noteq> t \<Longrightarrow> get_chromosomes s' u = get_chromosomes s u"
  by (auto simp: put_chromosomes_def get_chromosomes_def deref_def js_put_def
           split: chrsref.splits option.splits if_splits)

lemma step_unbanded:
  assumes "setChromosomesByTaxid e t chrs ba s = Inr (ba', s')"
    and "multiorganism (config s) = JFalsy" and "coordinateSystem s = ''bp''"
  shows "byTaxid (maxLength s') = byTaxid (maxLength s) \<and> iscn (maxLength s') = iscn (maxLength s) \<and>
     bp (maxLength s) \<le> bp (maxLength s') \<and> config s' = config s \<and> coordinateSystem s' = ''bp'' \<and> ba' = ba"
proof -
  from assms obtain s1 v xs n where
    p: "put_chromosomes s t v = Inr s1"
    and l: "bpLoop xs (s1\<lparr>numChromosomes := n\<rparr>) = Inr s'" and b: "ba' = ba"
    by (rule setChromosomesByTaxid_bp_InrD)
  from put_chromosomes_frame[OF p] bpLoop_frame[OF l] assms(3) b show ?thesis by simp
qed

lemma taxidsLoop_unbanded:
  "taxidsLoop e ts chrs ba s = Inr (ba', s') \<Longrightarrow>
   multiorganism (config s) = JFalsy \<Longrightarrow> coordinateSystem s = ''bp'' \<Longrightarrow>
   byTaxid (maxLength s') = byTaxid (maxLength s) \<and> iscn (maxLength s') = iscn (maxLength s) \<and>
     bp (maxLength s) \<le> bp (maxLength s') \<and> ba' = ba"
proof (induction ts arbitrary: ba s)
  case Nil
  then show ?case by simp
next
  case (Cons t ts)
  from Cons.prems(1) obtain ba1 s1 where
    st: "setChromosomesByTaxid e t chrs ba s = Inr (ba1, s1)" and
    l: "taxidsLoop e ts chrs ba1 s1 = Inr (ba', s')"
    by (auto split: sum.splits)
  note a = step_unbanded[OF st Cons.prems(2,3)]
  from a Cons.prems(2) have "multiorganism (config s1) = JFalsy" "coordinateSystem s1 = ''bp''" by simp_all
  from Cons.IH[OF l this] a show ?case by simp
qed

lemma setChromosomesByTaxid_bp_copy:
  assumes f: "multiorganism (config s) = JFalsy" and c: "coordinateSystem s = ''bp''"
    and r: "chromosomes (config s) = Ref a" and a: "a < length h" and h: "heap s = h @ [array_of (map Some cs)]"
  shows "setChromosomesByTaxid e t (Ref (length h)) ba s =
           Inr (ba, s\<lparr>heap := (h[a := js_put (h ! a) t (Arr (map Some cs))]) @ [array_of (map Some cs)],
                        numChromosomes := numChromosomes s + length cs,
                        maxLength := (maxLength s)\<lparr>bp := Max (insert (bp (maxLength s)) (cval_length ` set cs))\<rparr>\<rparr>)"
proof -
  let ?copy = "array_of (map Some cs)"
  let ?s1 = "s\<lparr>heap := (h[a := js_put (h ! a) t (Arr (map Some cs))]) @ [?copy]\<rparr>"
  have d: "deref (heap s) (length h) = Some ?copy" by (simp add: deref_def h)
  have sl: "js_slice ?copy = Inr ?copy" by (simp add: js_slice_def array_elems_array_of is_array_array_of)
  have p: "put_chromosomes s t (Arr (map Some cs)) = Inr ?s1"
    using a by (simp add: put_chromosomes_def r deref_def h nth_append list_update_append)
  have g: "get_chromosomes ?s1 t = Some (Arr (map Some cs))"
    using put_get_chromosomes[OF p] .
  have d2: "deref (h[a := js_put (h ! a) t (Arr (map Some cs))] @ [?copy]) (length h) = Some ?copy"
    by (simp add: deref_def nth_append)
  show ?thesis
    using f c by (simp add: setChromosomesByTaxid_def d sl p g d2 array_elems_array_of bpLoop_Some)
qed

lemma processBandData_unbanded:
  assumes "multiorganism (config s) = JFalsy" and "coordinateSystem s = ''bp''"
    and "chromosomes (config s) = Ref a" and "deref (heap s) a = Some obj" and "is_array obj"
    and "array_elems obj = map Some cs"
    and "taxid (config s) \<noteq> Undefined \<or> taxids (config s) \<noteq> None"
  shows "\<exists>s'. processBandData e s = Inr ([], s') \<and>
              numChromosomes s' = numChromosomes s + length cs \<and>
              maxLength s' = (maxLength s)\<lparr>bp := Max (insert (bp (maxLength s)) (cval_length ` set cs))\<rparr>"
proof -
  have "\<exists>t. setTaxids s = Inr (t, [t], s\<lparr>config := (config s)\<lparr>taxid := t, taxids := Some [t]\<rparr>\<rparr>)"
    using assms(1,7) by (cases "taxids (config s)") (auto simp: setTaxids_def)
  then obtain t where t: "setTaxids s = Inr (t, [t], s\<lparr>config := (config s)\<lparr>taxid := t, taxids := Some [t]\<rparr>\<rparr>)" ..
  let ?s1 = "s\<lparr>config := (config s)\<lparr>taxid := t, taxids := Some [t]\<rparr>\<rparr>"
  let ?s2 = "?s1\<lparr>heap := heap s @ [array_of (map Some cs)]\<rparr>"
  have a: "a < length (heap s)" using assms(4) by (simp add: deref_def split: if_splits)
  have c: "processBandData_chrs ?s1 = Inr (Ref (length (heap s)), ?s2)"
    using assms by (simp add: processBandData_chrs_def js_slice_def)
  have st: "setChromosomesByTaxid e t (Ref (length (heap s))) [] ?s2 =
           Inr ([], ?s2\<lparr>heap := ((heap s)[a := js_put (heap s ! a) t (Arr (map Some cs))]) @ [array_of (map Some cs)],
                        numChromosomes := numChromosomes ?s2 + length cs,
                        maxLength := (maxLength ?s2)\<lparr>bp := Max (insert (bp (maxLength ?s2)) (cval_length ` set cs))\<rparr>\<rparr>)"
    by (rule setChromosomesByTaxid_bp_copy) (use assms a in simp_all)
  show ?thesis
    by (simp add: processBandData_def t c st)
qed

text \<open>
  Claim C10. For one organism and coordinate system \<open>bp\<close>, a call of \<open>setChromosomesByTaxid\<close>
  that returns, and a whole run of \<open>processBandData\<close> that returns, leave every entry of
  \<open>maxLength\<close> per taxid as it was (an absent one absent) and \<open>maxLength.iscn\<close> as it was;
  \<open>maxLength.bp\<close> does not decrease.
\<close>

theorem unbanded_path_only_raises_global_bp:
  assumes "multiorganism (config s) = JFalsy" and "coordinateSystem s = ''bp''"
  shows "(setChromosomesByTaxid e t chrs ba s = Inr (ba', s') \<longrightarrow>
            byTaxid (maxLength s') = byTaxid (maxLength s) \<and> iscn (maxLength s') = iscn (maxLength s) \<and>
            bp (maxLength s) \<le> bp (maxLength s'))
       \<and> (processBandData e s = Inr (ba2, s2) \<longrightarrow>
            byTaxid (maxLength s2) = byTaxid (maxLength s) \<and> iscn (maxLength s2) = iscn (maxLength s) \<and>
            bp (maxLength s) \<le> bp (maxLength s2))"
proof (intro conjI impI)
  assume "setChromosomesByTaxid e t chrs ba s = Inr (ba', s')"
  from step_unbanded[OF this assms]
  show "byTaxid (maxLength s') = byTaxid (maxLength s)" "iscn (maxLength s') = iscn (maxLength s)"
       "bp (maxLength s) \<le> bp (maxLength s')" by simp_all
next
  assume r: "processBandData e s = Inr (ba2, s2)"
  then obtain tx ts sa chrs' sb where
    a: "setTaxids s = Inr (tx, ts, sa)" and b: "processBandData_chrs sa = Inr (chrs', sb)"
    and c: "taxidsLoop e ts chrs' [] sb = Inr (ba2, s2)"
    by (auto simp: processBandData_def split: sum.splits)
  from setTaxids_frame[OF a] processBandData_chrs_frame[OF b] assms
  have d: "multiorganism (config sb) = JFalsy" "coordinateSystem sb = ''bp''" "maxLength sb = maxLength s"
    by simp_all
  from taxidsLoop_unbanded[OF c d(1,2)] d(3)
  show "byTaxid (maxLength s2) = byTaxid (maxLength s)" "iscn (maxLength s2) = iscn (maxLength s)"
       "bp (maxLength s) \<le> bp (maxLength s2)" by simp_all
qed

theorem unbanded_path_only_raises_global_bp_witness:
  "\<exists>s1 s2.
      setChromosomesByTaxid env_ex (Taxid 9606) (Ref 1) []
          (ideo_bp\<lparr>heap := heap ideo_bp @ [array_of (map Some chrs_ex)]\<rparr>) = Inr ([], s1) \<and>
      byTaxid (maxLength s1) (Taxid 9606) = None \<and> iscn (maxLength s1) = 0 \<and>
      bp (maxLength s1) = 248 \<and>
      processBandData env_ex (ideo_bp\<lparr>heap := heap ideo_bp @ [array_of (map Some chrs_ex)]\<rparr>) =
          Inr ([], s2) \<and>
      byTaxid (maxLength s2) (Taxid 9606) = None \<and> iscn (maxLength s2) = 0 \<and>
      bp (maxLength s2) = 248"
proof -
  let ?s = "ideo_bp\<lparr>heap := heap ideo_bp @ [array_of (map Some chrs_ex)]\<rparr>"
  have f: "multiorganism (config ?s) = JFalsy" "coordinateSystem ?s = ''bp''"
    by (simp_all add: ideo_bp_def)
  from setChromosomesByTaxid_bp_copy
         [of ?s 0 "heap ideo_bp" chrs_ex env_ex "Taxid 9606" "[]"]
  obtain s1 where s1: "setChromosomesByTaxid env_ex (Taxid 9606) (Ref 1) [] ?s = Inr ([], s1)"
    "bp (maxLength s1) = 248"
    by (simp add: ideo_bp_def chrs_ex_def fresh_maxLength_def)
  from processBandData_unbanded [of ?s 0 "array_of (map Some chrs_ex)" chrs_ex env_ex]
  obtain s2 where s2: "processBandData env_ex ?s = Inr ([], s2)" "bp (maxLength s2) = 248"
    by (auto simp: ideo_bp_def chrs_ex_def deref_def array_elems_array_of is_array_array_of
                   fresh_maxLength_def)
  from unbanded_path_only_raises_global_bp [OF f, of env_ex "Taxid 9606" "Ref 1" "[]" "[]" s1 "[]" s2]
       s1 s2
  have "byTaxid (maxLength s1) (Taxid 9606) = None \<and> iscn (maxLength s1) = 0 \<and>
        byTaxid (maxLength s2) (Taxid 9606) = None \<and> iscn (maxLength s2) = 0"
    by (simp add: ideo_bp_def fresh_maxLength_def)
  with s1 s2 show ?thesis by blast
qed

text \<open>
  Claim C5. For one organism (\<open>multiorganism\<close> falsy), coordinate system \<open>bp\<close>, a configured
  array of chromosomes without holes and a taxid to resolve, \<open>processBandData\<close> returns, with no
  bands; the chromosome count has grown by the number of configured chromosomes, and
  \<open>maxLength.bp\<close> is the largest of its former value and the \<open>length\<close> of every chromosome:
  from the initial 0, the largest chromosome length.
\<close>

theorem unbanded_count_and_bp_maximum:
  assumes "multiorganism (config s) = JFalsy" and "coordinateSystem s = ''bp''"
    and "chromosomes (config s) = Ref a" and "deref (heap s) a = Some obj" and "is_array obj"
    and "array_elems obj = map Some cs"
    and "taxid (config s) \<noteq> Undefined \<or> taxids (config s) \<noteq> None"
  shows "\<exists>s'. processBandData e s = Inr ([], s') \<and>
              numChromosomes s' = numChromosomes s + length cs \<and>
              bp (maxLength s') = Max (insert (bp (maxLength s)) (cval_length ` set cs)) \<and>
              (bp (maxLength s) = 0 \<and> cs \<noteq> [] \<longrightarrow> bp (maxLength s') = Max (cval_length ` set cs))"
proof -
  from processBandData_unbanded[OF assms, of e] obtain s' where
    r: "processBandData e s = Inr ([], s')" "numChromosomes s' = numChromosomes s + length cs"
       "maxLength s' = (maxLength s)\<lparr>bp := Max (insert (bp (maxLength s)) (cval_length ` set cs))\<rparr>"
    by blast
  have m: "bp (maxLength s) = 0 \<Longrightarrow> cs \<noteq> [] \<Longrightarrow>
           Max (insert (bp (maxLength s)) (cval_length ` set cs)) = Max (cval_length ` set cs)"
    by simp
  from r m show ?thesis by simp
qed

theorem unbanded_count_and_bp_maximum_witness:
  "\<exists>s'. processBandData env_ex ideo_bp = Inr ([], s') \<and> numChromosomes s' = 3 \<and>
        bp (maxLength s') = 248"
  using unbanded_count_and_bp_maximum
          [of ideo_bp 0 "array_of (map Some chrs_ex)" chrs_ex env_ex]
  by (simp add: ideo_bp_def chrs_ex_def deref_def array_elems_array_of is_array_array_of
                fresh_maxLength_def numeral_3_eq_3)

subsection \<open>The sorted chromosome names\<close>

lemma js_insert_natural: "js_insert naturalSort_spec x ys = insort_key natural_key x ys"
  by (induction ys) (auto simp: naturalSort_spec_def)

lemma js_sort_natural: "js_sort naturalSort_spec xs = sort_key natural_key xs"
  by (induction xs) (simp_all add: js_sort_def sort_key_def js_insert_natural)

lemma mset_js_insert: "mset (js_insert cmp x ys) = add_mset x (mset ys)"
  by (induction ys) auto

lemma mset_js_sort: "mset (js_sort cmp xs) = mset xs"
  by (induction xs) (simp_all add: js_sort_def mset_js_insert)

lemma length_js_sort: "length (js_sort cmp xs) = length xs"
  using arg_cong[OF mset_js_sort, of size cmp xs] by simp

lemma set_js_sort: "set (js_sort cmp xs) = set xs"
  using arg_cong[OF mset_js_sort, of set_mset cmp xs] by simp

lemma get_chromosomes_cong:
  "config s' = config s \<Longrightarrow> heap s' = heap s \<Longrightarrow> get_chromosomes s' t = get_chromosomes s t"
  by (simp add: get_chromosomes_def split: chrsref.splits)

lemma setChrsByTaxidsWithBands_stored:
  assumes "setChrsByTaxidsWithBands e t chrs ba s = Inr (ba', s')"
    and "bandData s = Some bd" and "parseBands e (bd t) t (view (heap s) chrs) = Inr bbc"
  shows "get_chromosomes s' t =
           Some (Arr (map (\<lambda>c. Some (Tok (ChrName c))) (js_sort (naturalSort e) (map fst bbc))))
         \<and> numChromosomes s' = numChromosomes s + length bbc"
proof -
  from assms(1) obtain bd' bbc' s2 v where
    b: "bandData s = Some bd'" "parseBands e (bd' t) t (view (heap s) chrs) = Inr bbc'"
    and p: "put_chromosomes (if chromosomes (config s) = Absent \<or> chromosomes (config s) = Null
                      then new_chromosomes s else s) t
       (Arr (map (\<lambda>c. Some (Tok (ChrName c))) (js_sort (naturalSort e) (map fst bbc')))) = Inr s2"
    and g: "get_chromosomes s2 t = Some v"
    and l: "bandsLoop (js_sort (naturalSort e) (map fst bbc')) bbc' t ba
       (s2\<lparr>numChromosomes := numChromosomes s2 + cval_length v\<rparr>) = Inr (ba', s')"
    by (rule setChrsByTaxidsWithBands_InrD)
  from b assms(2,3) have e: "bbc' = bbc" by simp
  from put_get_chromosomes[OF p] g
  have v: "v = Arr (map (\<lambda>c. Some (Tok (ChrName c))) (js_sort (naturalSort e) (map fst bbc')))" by simp
  have "get_chromosomes s' t = get_chromosomes s2 t"
    using bandsLoop_frame[OF l] by (intro get_chromosomes_cong) simp_all
  moreover have "length (js_sort (naturalSort e) (map fst bbc')) = length bbc'"
    by (simp add: length_js_sort)
  moreover have "numChromosomes s2 = numChromosomes s"
    using put_chromosomes_frame[OF p] by (simp add: new_chromosomes_frame)
  ultimately show ?thesis using g v e bandsLoop_frame[OF l] by simp
qed


lemma ex_iscn_step:
  "\<exists>ba' s'. setChrsByTaxidsWithBands env_ex (Taxid 9606) Undef [] ideo_iscn = Inr (ba', s')"
  by (simp add: setChrsByTaxidsWithBands_def ideo_iscn_def env_ex_def parse_ex_def Let_def
      js_sort_def naturalSort_spec_def natural_key_def is_digit_def new_chromosomes_def put_chromosomes_def 
      get_chromosomes_def deref_def js_put_def getBandsArray_def band_ex_def fresh_maxLength_def)

text \<open>
  Claim C4. When \<open>setChrsByTaxidsWithBands\<close> returns and the comparator is the natural order,
  the list stored in \<open>config.chromosomes[taxid]\<close> holds the keys of the parsed mapping, each as
  often as the parser gave it, sorted by the natural key, equal keys in the order the parser
  gave them. The names chr10, chr2, chr1 are sorted to chr1, chr2, chr10.
\<close>

theorem chromosomes_stored_in_natural_order:
  assumes "setChrsByTaxidsWithBands e t chrs ba s = Inr (ba', s')"
    and "bandData s = Some bd" and "parseBands e (bd t) t (view (heap s) chrs) = Inr bbc"
    and "naturalSort e = naturalSort_spec"
  shows "(\<exists>names. get_chromosomes s' t = Some (Arr (map (\<lambda>c. Some (Tok (ChrName c))) names)) \<and>
                 names = js_sort (naturalSort e) (map fst bbc) \<and>
                 names = sort_key natural_key (map fst bbc) \<and>
                 sorted (map natural_key names) \<and> mset names = mset (map fst bbc))
       \<and> js_sort naturalSort_spec [''chr10'', ''chr2'', ''chr1''] = [''chr1'', ''chr2'', ''chr10'']"
proof
  from setChrsByTaxidsWithBands_stored[OF assms(1-3)] assms(4)
  show "\<exists>names. get_chromosomes s' t = Some (Arr (map (\<lambda>c. Some (Tok (ChrName c))) names)) \<and>
                 names = js_sort (naturalSort e) (map fst bbc) \<and>
                 names = sort_key natural_key (map fst bbc) \<and>
                 sorted (map natural_key names) \<and> mset names = mset (map fst bbc)"
    by (simp add: js_sort_natural)
  show "js_sort naturalSort_spec [''chr10'', ''chr2'', ''chr1''] = [''chr1'', ''chr2'', ''chr10'']"
    by (simp add: js_sort_def naturalSort_spec_def natural_key_def is_digit_def)
qed

theorem chromosomes_stored_in_natural_order_witness:
  "\<exists>ba' s'. setChrsByTaxidsWithBands env_ex (Taxid 9606) Undef [] ideo_iscn = Inr (ba', s') \<and>
     get_chromosomes s' (Taxid 9606) =
       Some (Arr [Some (Tok (ChrName ''chr1'')), Some (Tok (ChrName ''chr2'')), Some (Tok (ChrName ''chr10''))])"
proof -
  from ex_iscn_step obtain ba' s' where
    r: "setChrsByTaxidsWithBands env_ex (Taxid 9606) Undef [] ideo_iscn = Inr (ba', s')" by blast
  from chromosomes_stored_in_natural_order
         [OF r, of "[Taxid 9606 \<mapsto> [''human'']]"
            "[(''chr10'', [band_ex 30 300]), (''chr2'', [band_ex 20 200, band_ex 50 500]),
              (''chr1'', [band_ex 40 400, band_ex 100 900])]"]
  have "get_chromosomes s' (Taxid 9606) =
       Some (Arr [Some (Tok (ChrName ''chr1'')), Some (Tok (ChrName ''chr2'')), Some (Tok (ChrName ''chr10''))])"
    by (simp add: ideo_iscn_def env_ex_def parse_ex_def natural_key_def is_digit_def)
  with r show ?thesis by blast
qed

subsection \<open>The example runs\<close>

lemmas ex_defs = env_ex_def parse_ex_def band_ex_def fresh_maxLength_def
  processBandData_def setTaxids_def processBandData_chrs_def setChromosomesByTaxid_def
  setChrsByTaxidsWithBands_def Let_def js_sort_def naturalSort_spec_def natural_key_def is_digit_def
  new_chromosomes_def put_chromosomes_def get_chromosomes_def deref_def js_put_def getBandsArray_def
  view_def

lemma ex_multi_run:
  "\<exists>s'. processBandData env_ex ideo_multi =
          Inr ([[band_ex 40 400, band_ex 100 900], [band_ex 20 200, band_ex 50 500], [band_ex 30 300],
                [band_ex 80 1200]], s') \<and>
        numChromosomes s' = 4 \<and> bp (maxLength s') = 1200 \<and> iscn (maxLength s') = 100 \<and>
        byTaxid (maxLength s') (Taxid 9606) = Some \<lparr>bp = 900, iscn = 100\<rparr> \<and>
        byTaxid (maxLength s') (Taxid 10090) = Some \<lparr>bp = 1200, iscn = 80\<rparr> \<and>
        get_chromosomes s' (Taxid 9606) =
          Some (Arr [Some (Tok (ChrName ''chr1'')), Some (Tok (ChrName ''chr2'')), Some (Tok (ChrName ''chr10''))]) \<and>
        get_chromosomes s' (Taxid 10090) = Some (Arr [Some (Tok (ChrName ''chr1''))]) \<and>
        chrs_seen s' (Ref 0) (Taxid 9606) =
          Some (Arr [Some (Tok (ChrName ''chr1'')), Some (Tok (ChrName ''chr2'')), Some (Tok (ChrName ''chr10''))]) \<and>
        config s' = config ideo_multi"
  by (simp add: ideo_multi_def ex_defs chrs_seen_def)

subsection \<open>The reference handed to the assembler\<close>

text \<open>
  Claim C7. The claim is that \<open>chrs\<close> is a copy of \<open>config.chromosomes\<close> for every
  configuration. For the two organisms of \<open>ideo_multi\<close> the code gives \<open>chrs\<close> the reference
  \<open>config.chromosomes\<close> itself and copies nothing. Before the run the holder of \<open>chrs\<close> reads
  chr2, chr1 at taxid 9606; after it, chr1, chr2, chr10, which the assembly of that taxon stored
  in \<open>config.chromosomes\<close>.
\<close>

theorem multiorganism_chrs_is_config_chromosomes_itself:
  "chromosomes (config ideo_multi) = Ref 0 \<and>
   processBandData_chrs (ideo_multi\<lparr>coordinateSystem := ''bp''\<rparr>) =
     Inr (Ref 0, ideo_multi\<lparr>coordinateSystem := ''bp''\<rparr>) \<and>
   chrs_seen ideo_multi (Ref 0) (Taxid 9606) =
     Some (Arr [Some (Tok (ChrName ''chr2'')), Some (Tok (ChrName ''chr1''))]) \<and>
   (\<exists>ba s'. processBandData env_ex ideo_multi = Inr (ba, s') \<and>
      chromosomes (config s') = Ref 0 \<and>
      chrs_seen s' (Ref 0) (Taxid 9606) =
        Some (Arr [Some (Tok (ChrName ''chr1'')), Some (Tok (ChrName ''chr2'')),
                   Some (Tok (ChrName ''chr10''))]))"
proof -
  have a: "chromosomes (config ideo_multi) = Ref 0" by (simp add: ideo_multi_def)
  have b: "processBandData_chrs (ideo_multi\<lparr>coordinateSystem := ''bp''\<rparr>) =
     Inr (Ref 0, ideo_multi\<lparr>coordinateSystem := ''bp''\<rparr>)"
    by (simp add: ideo_multi_def processBandData_chrs_def)
  have c: "chrs_seen ideo_multi (Ref 0) (Taxid 9606) =
     Some (Arr [Some (Tok (ChrName ''chr2'')), Some (Tok (ChrName ''chr1''))])"
    by (simp add: ideo_multi_def chrs_seen_def view_def deref_def)
  from ex_multi_run a b c show ?thesis by auto
qed

subsection \<open>The maxima\<close>

lemma getBandsArray_InrD:
  assumes "getBandsArray c bbc t s = Inr (x, s')"
  obtains bands where "map_of bbc c = Some bands" "bands \<noteq> []" "x = [bands]"
    "s' = s\<lparr>maxLength := recordLength t (chrLength bands) (maxLength s)\<rparr>"
proof -
  from assms obtain bands where b: "map_of bbc c = Some bands" "bands \<noteq> []"
    by (auto simp: getBandsArray_def split: option.splits if_splits)
  with assms have "x = [bands]" "s' = s\<lparr>maxLength := recordLength t (chrLength bands) (maxLength s)\<rparr>"
    by (auto simp: getBandsArray_def Let_def recordLength_def chrLength_def taxonEntry_def max_def
             split: option.splits)
  with b that show thesis by blast
qed

lemma recordLength_grow: "taxonMaximaGrow ml (recordLength t l ml)"
  by (auto simp: taxonMaximaGrow_def recordLength_def taxonEntry_def)

lemma recordLength_globalIsMax:
  assumes "globalIsMax ml"
  shows "globalIsMax (recordLength t l ml)"
proof -
  have e: "bp (taxonEntry ml t) \<le> bp ml" "iscn (taxonEntry ml t) \<le> iscn ml"
    using assms by (auto simp: globalIsMax_def taxonEntry_def split: option.splits)
  show ?thesis
    unfolding globalIsMax_def
  proof (intro conjI allI impI)
    fix u m assume um: "byTaxid (recordLength t l ml) u = Some m"
    have g: "bp ml \<le> bp (recordLength t l ml)" "iscn ml \<le> iscn (recordLength t l ml)"
      by (simp_all add: recordLength_def)
    have n: "max (bp (taxonEntry ml t)) (bp l) \<le> bp (recordLength t l ml)"
            "max (iscn (taxonEntry ml t)) (iscn l) \<le> iscn (recordLength t l ml)"
      using e by (auto simp: recordLength_def)
    show "bp m \<le> bp (recordLength t l ml)"
    proof (cases "u = t")
      case True
      with um have "bp m = max (bp (taxonEntry ml t)) (bp l)" by (auto simp: recordLength_def)
      with n show ?thesis by simp
    next
      case False
      with um have "byTaxid ml u = Some m" by (simp add: recordLength_def)
      with assms have "bp m \<le> bp ml" by (simp add: globalIsMax_def)
      with g show ?thesis by linarith
    qed
    show "iscn m \<le> iscn (recordLength t l ml)"
    proof (cases "u = t")
      case True
      with um have "iscn m = max (iscn (taxonEntry ml t)) (iscn l)" by (auto simp: recordLength_def)
      with n show ?thesis by simp
    next
      case False
      with um have "byTaxid ml u = Some m" by (simp add: recordLength_def)
      with assms have "iscn m \<le> iscn ml" by (simp add: globalIsMax_def)
      with g show ?thesis by linarith
    qed
  next
    show "bp (recordLength t l ml) = 0 \<or>
          (\<exists>u m. byTaxid (recordLength t l ml) u = Some m \<and> bp m = bp (recordLength t l ml))"
    proof (cases "bp (taxonEntry ml t) < bp l \<and> bp ml < bp l")
      case True
      then have "\<exists>m. byTaxid (recordLength t l ml) t = Some m \<and> bp m = bp l"
        "bp (recordLength t l ml) = bp l"
        by (simp_all add: recordLength_def max_def)
      then show ?thesis by auto
    next
      case False
      with e have g: "bp (recordLength t l ml) = bp ml" by (auto simp: recordLength_def max_def)
      from assms have "bp ml = 0 \<or> (\<exists>u m. byTaxid ml u = Some m \<and> bp m = bp ml)"
        by (simp add: globalIsMax_def)
      then show ?thesis
      proof
        assume "bp ml = 0" with g show ?thesis by simp
      next
        assume "\<exists>u m. byTaxid ml u = Some m \<and> bp m = bp ml"
        then obtain u m where um: "byTaxid ml u = Some m" "bp m = bp ml" by blast
        show ?thesis
        proof (cases "u = t")
          case True
          with um have "bp (taxonEntry ml t) = bp ml" by (simp add: taxonEntry_def)
          with False have "bp l \<le> bp ml" by auto
          with \<open>bp (taxonEntry ml t) = bp ml\<close>
          have "\<exists>m. byTaxid (recordLength t l ml) t = Some m \<and> bp m = bp ml"
            by (simp add: recordLength_def max_def)
          with g show ?thesis by auto
        next
          case False
          with um have "byTaxid (recordLength t l ml) u = Some m" by (simp add: recordLength_def)
          with um g show ?thesis by auto
        qed
      qed
    qed
  next
    show "iscn (recordLength t l ml) = 0 \<or>
          (\<exists>u m. byTaxid (recordLength t l ml) u = Some m \<and> iscn m = iscn (recordLength t l ml))"
    proof (cases "iscn (taxonEntry ml t) < iscn l \<and> iscn ml < iscn l")
      case True
      then have "\<exists>m. byTaxid (recordLength t l ml) t = Some m \<and> iscn m = iscn l"
        "iscn (recordLength t l ml) = iscn l"
        by (simp_all add: recordLength_def max_def)
      then show ?thesis by auto
    next
      case False
      with e have g: "iscn (recordLength t l ml) = iscn ml" by (auto simp: recordLength_def max_def)
      from assms have "iscn ml = 0 \<or> (\<exists>u m. byTaxid ml u = Some m \<and> iscn m = iscn ml)"
        by (simp add: globalIsMax_def)
      then show ?thesis
      proof
        assume "iscn ml = 0" with g show ?thesis by simp
      next
        assume "\<exists>u m. byTaxid ml u = Some m \<and> iscn m = iscn ml"
        then obtain u m where um: "byTaxid ml u = Some m" "iscn m = iscn ml" by blast
        show ?thesis
        proof (cases "u = t")
          case True
          with um have "iscn (taxonEntry ml t) = iscn ml" by (simp add: taxonEntry_def)
          with False have "iscn l \<le> iscn ml" by auto
          with \<open>iscn (taxonEntry ml t) = iscn ml\<close>
          have "\<exists>m. byTaxid (recordLength t l ml) t = Some m \<and> iscn m = iscn ml"
            by (simp add: recordLength_def max_def)
          with g show ?thesis by auto
        next
          case False
          with um have "byTaxid (recordLength t l ml) u = Some m" by (simp add: recordLength_def)
          with um g show ?thesis by auto
        qed
      qed
    qed
  qed
qed

lemma taxonMaximaGrow_refl: "taxonMaximaGrow ml ml"
  by (simp add: taxonMaximaGrow_def)

lemma taxonMaximaGrow_trans:
  "taxonMaximaGrow a b \<Longrightarrow> taxonMaximaGrow b c \<Longrightarrow> taxonMaximaGrow a c"
  unfolding taxonMaximaGrow_def by (meson le_trans)

lemma getBandsArray_maxima:
  assumes "getBandsArray c bbc t s = Inr (x, s')"
  shows "taxonMaximaGrow (maxLength s) (maxLength s')"
    and "globalIsMax (maxLength s) \<Longrightarrow> globalIsMax (maxLength s')"
  using assms by (auto elim!: getBandsArray_InrD simp: recordLength_grow recordLength_globalIsMax)

lemma bandsLoop_maxima:
  "bandsLoop cs bbc t ba s = Inr (ba', s') \<Longrightarrow>
     taxonMaximaGrow (maxLength s) (maxLength s') \<and>
     (globalIsMax (maxLength s) \<longrightarrow> globalIsMax (maxLength s'))"
proof (induction cs arbitrary: ba s)
  case Nil
  then show ?case by (simp add: taxonMaximaGrow_refl)
next
  case (Cons c cs)
  from Cons.prems obtain x s1 where
    g: "getBandsArray c bbc t s = Inr (x, s1)" and l: "bandsLoop cs bbc t (ba @ x) s1 = Inr (ba', s')"
    by (auto split: sum.splits)
  from getBandsArray_maxima[OF g] Cons.IH[OF l] show ?case
    by (blast intro: taxonMaximaGrow_trans)
qed

lemma setChrsByTaxidsWithBands_maxima:
  assumes "setChrsByTaxidsWithBands e t chrs ba s = Inr (ba', s')"
  shows "taxonMaximaGrow (maxLength s) (maxLength s') \<and>
         (globalIsMax (maxLength s) \<longrightarrow> globalIsMax (maxLength s'))"
proof -
  from assms obtain bbc s2 v where
    p: "put_chromosomes (if chromosomes (config s) = Absent \<or> chromosomes (config s) = Null
                      then new_chromosomes s else s) t
       (Arr (map (\<lambda>c. Some (Tok (ChrName c))) (js_sort (naturalSort e) (map fst bbc)))) = Inr s2"
    and l: "bandsLoop (js_sort (naturalSort e) (map fst bbc)) bbc t ba
       (s2\<lparr>numChromosomes := numChromosomes s2 + cval_length v\<rparr>) = Inr (ba', s')"
    by (rule setChrsByTaxidsWithBands_InrD)
  from put_chromosomes_frame[OF p] have "maxLength s2 = maxLength s"
    by (simp add: new_chromosomes_frame)
  with bandsLoop_maxima[OF l] show ?thesis by simp
qed

lemma setChromosomesByTaxid_flags:
  assumes "setChromosomesByTaxid e t chrs ba s = Inr (ba', s')"
  shows "multiorganism (config s') = multiorganism (config s) \<and> coordinateSystem s' = coordinateSystem s"
proof (cases "coordinateSystem s = ''iscn'' \<or> multiorganism (config s) \<noteq> JFalsy")
  case True
  with assms have "setChrsByTaxidsWithBands e t chrs ba s = Inr (ba', s')"
    by (simp add: setChromosomesByTaxid_def)
  from setChrsByTaxidsWithBands_flags[OF this] show ?thesis by simp
next
  case False
  show ?thesis
  proof (cases "coordinateSystem s = ''bp''")
    case True
    with False step_unbanded[OF assms] show ?thesis by simp
  next
    case nbp: False
    with False assms show ?thesis by (simp add: setChromosomesByTaxid_def)
  qed
qed

lemma setChromosomesByTaxid_maxima:
  assumes "setChromosomesByTaxid e t chrs ba s = Inr (ba', s')"
  shows "taxonMaximaGrow (maxLength s) (maxLength s') \<and>
         ((coordinateSystem s = ''iscn'' \<or> multiorganism (config s) \<noteq> JFalsy) \<and>
          globalIsMax (maxLength s) \<longrightarrow> globalIsMax (maxLength s'))"
proof (cases "coordinateSystem s = ''iscn'' \<or> multiorganism (config s) \<noteq> JFalsy")
  case True
  with assms have "setChrsByTaxidsWithBands e t chrs ba s = Inr (ba', s')"
    by (simp add: setChromosomesByTaxid_def)
  from setChrsByTaxidsWithBands_maxima[OF this] show ?thesis by simp
next
  case False
  show ?thesis
  proof (cases "coordinateSystem s = ''bp''")
    case True
    with False step_unbanded[OF assms] have "byTaxid (maxLength s') = byTaxid (maxLength s)" by simp
    with False show ?thesis by (simp add: taxonMaximaGrow_def)
  next
    case nbp: False
    with False assms show ?thesis by (simp add: setChromosomesByTaxid_def taxonMaximaGrow_refl)
  qed
qed

lemma taxidsLoop_maxima:
  "taxidsLoop e ts chrs ba s = Inr (ba', s') \<Longrightarrow>
     taxonMaximaGrow (maxLength s) (maxLength s') \<and>
     ((coordinateSystem s = ''iscn'' \<or> multiorganism (config s) \<noteq> JFalsy) \<and>
      globalIsMax (maxLength s) \<longrightarrow> globalIsMax (maxLength s'))"
proof (induction ts arbitrary: ba s)
  case Nil
  then show ?case by (simp add: taxonMaximaGrow_refl)
next
  case (Cons t ts)
  from Cons.prems obtain ba1 s1 where
    st: "setChromosomesByTaxid e t chrs ba s = Inr (ba1, s1)" and
    l: "taxidsLoop e ts chrs ba1 s1 = Inr (ba', s')"
    by (auto split: sum.splits)
  from setChromosomesByTaxid_maxima[OF st] setChromosomesByTaxid_flags[OF st] Cons.IH[OF l]
  show ?case by (auto intro: taxonMaximaGrow_trans)
qed

text \<open>
  Claim C3, as stated, fails without bands. For one organism and coordinate system \<open>bp\<close> the
  global maxima are those of the entries per taxid before the run (all are 0, there is no entry),
  and are not after it: \<open>maxLength.bp\<close> is 248 and there still is no entry.
\<close>

theorem global_maximum_not_max_of_taxon_maxima_without_bands:
  "globalIsMax (maxLength ideo_bp) \<and>
   map_option (globalIsMax \<circ> maxLength) (result_state (processBandData env_ex ideo_bp)) = Some False"
proof -
  from processBandData_unbanded [of ideo_bp 0 "array_of (map Some chrs_ex)" chrs_ex env_ex]
  obtain s' where r: "processBandData env_ex ideo_bp = Inr ([], s')" 
     "maxLength s' = fresh_maxLength\<lparr>bp := 248\<rparr>"
    by (auto simp: ideo_bp_def chrs_ex_def deref_def array_elems_array_of is_array_array_of fresh_maxLength_def)
  have "\<not> globalIsMax (fresh_maxLength\<lparr>bp := 248\<rparr>)" by (simp add: globalIsMax_def fresh_maxLength_def)
  moreover have "globalIsMax (maxLength ideo_bp)" by (simp add: globalIsMax_def ideo_bp_def fresh_maxLength_def)
  ultimately show ?thesis using r by (simp add: result_state_def)
qed


text \<open>
  Claim C3, amended. Processing one chromosome in \<open>getBandsArray\<close> keeps every entry per taxid
  and lowers none of its maxima; if the global maxima were the maxima of the entries before, they
  are afterwards. The same holds for a whole run of \<open>processBandData\<close>: no entry is lost or
  lowered on any path, and on the path with bands (coordinate system \<open>iscn\<close>, or
  \<open>multiorganism\<close> truthy) the global maxima stay the maxima of the entries.
\<close>

theorem taxon_maxima_grow_and_global_is_max_with_bands:
  "(getBandsArray c bbc t s = Inr (x, s') \<longrightarrow>
      taxonMaximaGrow (maxLength s) (maxLength s') \<and>
      (globalIsMax (maxLength s) \<longrightarrow> globalIsMax (maxLength s')))
   \<and> (processBandData e s0 = Inr (ba, s1) \<longrightarrow>
      taxonMaximaGrow (maxLength s0) (maxLength s1) \<and>
      ((coordinateSystem s0 = ''iscn'' \<or> multiorganism (config s0) \<noteq> JFalsy) \<and>
       globalIsMax (maxLength s0) \<longrightarrow> globalIsMax (maxLength s1)))"
proof (intro conjI impI)
  assume g: "getBandsArray c bbc t s = Inr (x, s')"
  from getBandsArray_maxima(1)[OF g] show "taxonMaximaGrow (maxLength s) (maxLength s')" .
  assume "globalIsMax (maxLength s)"
  with getBandsArray_maxima(2)[OF g] show "globalIsMax (maxLength s')" .
next
  assume r: "processBandData e s0 = Inr (ba, s1)"
  then obtain tx ts sa chrs sb where
    a: "setTaxids s0 = Inr (tx, ts, sa)" and b: "processBandData_chrs sa = Inr (chrs, sb)"
    and c: "taxidsLoop e ts chrs [] sb = Inr (ba, s1)"
    by (auto simp: processBandData_def split: sum.splits)
  have m: "maxLength sb = maxLength s0" "multiorganism (config sb) = multiorganism (config s0)"
    using setTaxids_frame[OF a] processBandData_chrs_frame[OF b] by simp_all
  from taxidsLoop_maxima[OF c] m show "taxonMaximaGrow (maxLength s0) (maxLength s1)" by simp
  assume h: "(coordinateSystem s0 = ''iscn'' \<or> multiorganism (config s0) \<noteq> JFalsy) \<and>
       globalIsMax (maxLength s0)"
  have "coordinateSystem sb = ''iscn'' \<or> multiorganism (config sb) \<noteq> JFalsy"
  proof (cases "multiorganism (config s0) = JFalsy")
    case True
    with h setTaxids_frame[OF a] processBandData_chrs_frame[OF b] show ?thesis by simp
  next
    case False
    with m show ?thesis by simp
  qed
  with taxidsLoop_maxima[OF c] m h show "globalIsMax (maxLength s1)" by auto
qed

theorem taxon_maxima_grow_and_global_is_max_with_bands_witness:
  "\<exists>s' ba s1.
     getBandsArray ''chr1'' [(''chr1'', [band_ex 40 400, band_ex 100 900])] (Taxid 9606) ideo_seen =
       Inr ([[band_ex 40 400, band_ex 100 900]], s') \<and>
     byTaxid (maxLength ideo_seen) (Taxid 9606) = Some \<lparr>bp = 500, iscn = 50\<rparr> \<and>
     byTaxid (maxLength s') (Taxid 9606) = Some \<lparr>bp = 900, iscn = 100\<rparr> \<and>
     taxonMaximaGrow (maxLength ideo_seen) (maxLength s') \<and>
     globalIsMax (maxLength ideo_seen) \<and> globalIsMax (maxLength s') \<and>
     processBandData env_ex ideo_multi = Inr (ba, s1) \<and>
     taxonMaximaGrow (maxLength ideo_multi) (maxLength s1) \<and>
     globalIsMax (maxLength ideo_multi) \<and> globalIsMax (maxLength s1)"
proof -
  have g0: "globalIsMax (maxLength ideo_seen)"
    by (auto simp: globalIsMax_def ideo_seen_def split: if_splits)
  have g1: "globalIsMax (maxLength ideo_multi)"
    by (simp add: globalIsMax_def ideo_multi_def fresh_maxLength_def)
  have b: "coordinateSystem ideo_multi = ''iscn'' \<or> multiorganism (config ideo_multi) \<noteq> JFalsy"
    by (simp add: ideo_multi_def)
  obtain s' where s': "getBandsArray ''chr1'' [(''chr1'', [band_ex 40 400, band_ex 100 900])] (Taxid 9606) ideo_seen =
       Inr ([[band_ex 40 400, band_ex 100 900]], s')" 
     "byTaxid (maxLength s') (Taxid 9606) = Some \<lparr>bp = 900, iscn = 100\<rparr>"
    by (simp add: getBandsArray_def ideo_seen_def band_ex_def)
  from ex_multi_run obtain ba s1 where s1: "processBandData env_ex ideo_multi = Inr (ba, s1)" by blast
  have e: "byTaxid (maxLength ideo_seen) (Taxid 9606) = Some \<lparr>bp = 500, iscn = 50\<rparr>"
    by (simp add: ideo_seen_def)
  from taxon_maxima_grow_and_global_is_max_with_bands
         [of "''chr1''" "[(''chr1'', [band_ex 40 400, band_ex 100 900])]" "Taxid 9606" ideo_seen
             "[[band_ex 40 400, band_ex 100 900]]" s' env_ex ideo_multi ba s1]
       s' s1 g0 g1 b e
  show ?thesis by blast
qed

subsection \<open>When the assembly returns\<close>

lemma getBandsArray_returns:
  "map_of bbc c = Some bands \<Longrightarrow> bands \<noteq> [] \<Longrightarrow> \<exists>s'. getBandsArray c bbc t s = Inr ([bands], s')"
  by (simp add: getBandsArray_def Let_def)

lemma bandsLoop_returns:
  "\<forall>c \<in> set cs. \<exists>bands. map_of bbc c = Some bands \<and> bands \<noteq> [] \<Longrightarrow>
     \<exists>ba' s'. bandsLoop cs bbc t ba s = Inr (ba', s')"
proof (induction cs arbitrary: ba s)
  case Nil
  then show ?case by simp
next
  case (Cons c cs)
  then obtain bands where b: "map_of bbc c = Some bands" "bands \<noteq> []" by auto
  from getBandsArray_returns[OF b, of t s] obtain s1 where
    g: "getBandsArray c bbc t s = Inr ([bands], s1)" by blast
  from Cons.prems have "\<forall>c \<in> set cs. \<exists>bands. map_of bbc c = Some bands \<and> bands \<noteq> []" by simp
  from Cons.IH[OF this, of "ba @ [bands]" s1] g show ?case by simp
qed

lemma setChrsByTaxidsWithBands_returns:
  assumes b: "bandData s = Some bd" and p: "parseBands e (bd t) t (view (heap s) chrs) = Inr bbc"
    and ne: "\<forall>c bands. (c, bands) \<in> set bbc \<longrightarrow> bands \<noteq> []"
    and r: "chromosomes (config s) = Absent \<or> chromosomes (config s) = Null \<or>
         (\<exists>a. chromosomes (config s) = Ref a \<and> a < length (heap s))"
  shows "\<exists>ba' s'. setChrsByTaxidsWithBands e t chrs ba s = Inr (ba', s')"
proof -
  let ?names = "js_sort (naturalSort e) (map fst bbc)"
  let ?s1 = "if chromosomes (config s) = Absent \<or> chromosomes (config s) = Null
             then new_chromosomes s else s"
  let ?v = "Arr (map (\<lambda>c. Some (Tok (ChrName c))) ?names)"
  from r obtain s2 where put: "put_chromosomes ?s1 t ?v = Inr s2"
    by (auto simp: put_chromosomes_def new_chromosomes_def deref_def)
  have get: "get_chromosomes s2 t = Some ?v" using put by (rule put_get_chromosomes)
  have "\<forall>c \<in> set ?names. \<exists>bands. map_of bbc c = Some bands \<and> bands \<noteq> []"
  proof
    fix c assume "c \<in> set ?names"
    then have "c \<in> fst ` set bbc" by (simp add: set_js_sort)
    then obtain bands where "map_of bbc c = Some bands"
      by (metis domD dom_map_of_conv_image_fst)
    moreover from this have "(c, bands) \<in> set bbc" by (rule map_of_SomeD)
    ultimately show "\<exists>bands. map_of bbc c = Some bands \<and> bands \<noteq> []" using ne by blast
  qed
  from bandsLoop_returns[OF this, of t ba "s2\<lparr>numChromosomes := numChromosomes s2 + cval_length ?v\<rparr>"]
  show ?thesis
    using b p put get by (simp add: setChrsByTaxidsWithBands_def Let_def)
qed


lemma setChrsByTaxidsWithBands_chromosomes:
  assumes "setChrsByTaxidsWithBands e t chrs ba s = Inr (ba', s')"
  shows "\<exists>a. chromosomes (config s') = Ref a \<and> a < length (heap s')"
proof -
  let ?s1 = "if chromosomes (config s) = Absent \<or> chromosomes (config s) = Null
             then new_chromosomes s else s"
  from assms obtain bbc s2 v where
    p: "put_chromosomes ?s1 t
          (Arr (map (\<lambda>c. Some (Tok (ChrName c))) (js_sort (naturalSort e) (map fst bbc)))) = Inr s2"
    and l: "bandsLoop (js_sort (naturalSort e) (map fst bbc)) bbc t ba
              (s2\<lparr>numChromosomes := numChromosomes s2 + cval_length v\<rparr>) = Inr (ba', s')"
    by (rule setChrsByTaxidsWithBands_InrD)
  from p obtain a where "chromosomes (config ?s1) = Ref a" "a < length (heap ?s1)"
    by (auto simp: put_chromosomes_def deref_def split: chrsref.splits if_splits)
  with put_chromosomes_frame[OF p] bandsLoop_frame[OF l] show ?thesis by simp
qed

lemma taxidsLoop_banded_returns:
  assumes "parserContract e bd ts"
    and "bandData s = Some bd"
    and "coordinateSystem s = ''iscn'' \<or> multiorganism (config s) \<noteq> JFalsy"
    and "chromosomes (config s) = Absent \<or> chromosomes (config s) = Null \<or>
         (\<exists>a. chromosomes (config s) = Ref a \<and> a < length (heap s))"
  shows "\<exists>ba' s'. taxidsLoop e ts chrs ba s = Inr (ba', s')"
  using assms
proof (induction ts arbitrary: ba s)
  case Nil
  then show ?case by simp
next
  case (Cons t ts)
  from Cons.prems(1) obtain bbc where
    p: "parseBands e (bd t) t (view (heap s) chrs) = Inr bbc"
    and ne: "\<forall>c bands. (c, bands) \<in> set bbc \<longrightarrow> bands \<noteq> []"
    unfolding parserContract_def by (metis list.set_intros(1))
  from setChrsByTaxidsWithBands_returns[OF Cons.prems(2) p ne Cons.prems(4), of ba]
  obtain ba1 s1 where r: "setChrsByTaxidsWithBands e t chrs ba s = Inr (ba1, s1)" by blast
  with Cons.prems(3) have st: "setChromosomesByTaxid e t chrs ba s = Inr (ba1, s1)"
    by (simp add: setChromosomesByTaxid_def)
  from setChrsByTaxidsWithBands_flags[OF r] Cons.prems(2,3)
  have a: "bandData s1 = Some bd"
    "coordinateSystem s1 = ''iscn'' \<or> multiorganism (config s1) \<noteq> JFalsy" by simp_all
  from setChrsByTaxidsWithBands_chromosomes[OF r]
  have b: "chromosomes (config s1) = Absent \<or> chromosomes (config s1) = Null \<or>
         (\<exists>a. chromosomes (config s1) = Ref a \<and> a < length (heap s1))" by simp
  from Cons.prems(1) have c: "parserContract e bd ts" by (simp add: parserContract_def)
  from Cons.IH[OF c a b, of ba1] st show ?case by simp
qed

lemma processBandData_banded_returns:
  assumes "setTaxids s = Inr (tx, ts, s1)" and "processBandData_chrs s1 = Inr (chrs, s2)"
    and "parserContract e bd ts"
    and "bandData s = Some bd"
    and "coordinateSystem s = ''iscn'' \<or> multiorganism (config s) \<noteq> JFalsy"
    and "chromosomes (config s) = Absent \<or> chromosomes (config s) = Null \<or>
         (\<exists>a. chromosomes (config s) = Ref a \<and> a < length (heap s))"
  shows "\<exists>ba s'. processBandData e s = Inr (ba, s')"
proof -
  note f = setTaxids_frame[OF assms(1)] processBandData_chrs_frame[OF assms(2)]
  have h: "length (heap s) \<le> length (heap s2)"
    using assms(2) f(1)
    by (auto simp: processBandData_chrs_def split: chrsref.splits option.splits if_splits sum.splits)
  have a: "bandData s2 = Some bd" using f assms(4) by simp
  have b: "coordinateSystem s2 = ''iscn'' \<or> multiorganism (config s2) \<noteq> JFalsy"
  proof (cases "multiorganism (config s) = JFalsy")
    case True
    with assms(5) f show ?thesis by simp
  next
    case False
    with f show ?thesis by simp
  qed
  have c: "chromosomes (config s2) = Absent \<or> chromosomes (config s2) = Null \<or>
         (\<exists>a. chromosomes (config s2) = Ref a \<and> a < length (heap s2))"
    using assms(6) f h by auto
  from taxidsLoop_banded_returns[OF assms(3) a b c, of chrs "[]"] assms(1,2)
  show ?thesis by (simp add: processBandData_def)
qed

subsection \<open>The returned bands\<close>

lemma bandsOf_Cons:
  "bandsOf bbc (c # cs) = (case map_of bbc c of None \<Rightarrow> [] | Some bands \<Rightarrow> [bands]) @ bandsOf bbc cs"
  by (simp add: bandsOf_def)

lemma bandsLoop_result:
  "bandsLoop cs bbc t ba s = Inr (ba', s') \<Longrightarrow>
     ba' = ba @ bandsOf bbc cs \<and> (\<forall>ba2. bandsLoop cs bbc t ba2 s = Inr (ba2 @ bandsOf bbc cs, s'))"
proof (induction cs arbitrary: ba s)
  case Nil
  then show ?case by (simp add: bandsOf_def)
next
  case (Cons c cs)
  from Cons.prems obtain x s1 where
    g: "getBandsArray c bbc t s = Inr (x, s1)" and l: "bandsLoop cs bbc t (ba @ x) s1 = Inr (ba', s')"
    by (auto split: sum.splits)
  from g obtain bands where b: "map_of bbc c = Some bands" "x = [bands]"
    by (rule getBandsArray_InrD)
  from Cons.IH[OF l] b g show ?case by (simp add: bandsOf_Cons)
qed

lemma taxonBands_banded:
  assumes "coordinateSystem s = ''iscn'' \<or> multiorganism (config s) \<noteq> JFalsy"
    and "bandData s = Some bd" and "parseBands e (bd t) t (view (heap s) chrs) = Inr bbc"
  shows "taxonBands e t chrs s = bbc"
  using assms by (simp add: taxonBands_def)

lemma setChrsByTaxidsWithBands_result:
  assumes "setChrsByTaxidsWithBands e t chrs ba s = Inr (ba', s')"
    and "coordinateSystem s = ''iscn'' \<or> multiorganism (config s) \<noteq> JFalsy"
  shows "ba' = ba @ sortedBands e (taxonBands e t chrs s) \<and>
         (\<forall>ba2. setChrsByTaxidsWithBands e t chrs ba2 s =
                  Inr (ba2 @ sortedBands e (taxonBands e t chrs s), s'))"
proof -
  from assms(1) obtain bd bbc s2 v where
    b: "bandData s = Some bd" "parseBands e (bd t) t (view (heap s) chrs) = Inr bbc"
    and p: "put_chromosomes (if chromosomes (config s) = Absent \<or> chromosomes (config s) = Null
                      then new_chromosomes s else s) t
       (Arr (map (\<lambda>c. Some (Tok (ChrName c))) (js_sort (naturalSort e) (map fst bbc)))) = Inr s2"
    and g: "get_chromosomes s2 t = Some v"
    and l: "bandsLoop (js_sort (naturalSort e) (map fst bbc)) bbc t ba
       (s2\<lparr>numChromosomes := numChromosomes s2 + cval_length v\<rparr>) = Inr (ba', s')"
    by (rule setChrsByTaxidsWithBands_InrD)
  have tb: "taxonBands e t chrs s = bbc" using assms(2) b by (rule taxonBands_banded)
  from bandsLoop_result[OF l] b p g show ?thesis
    by (simp add: tb sortedBands_def setChrsByTaxidsWithBands_def Let_def)
qed

lemma sortedBands_Nil: "sortedBands e [] = []"
  by (simp add: sortedBands_def bandsOf_def js_sort_def)

lemma setChromosomesByTaxid_result:
  assumes "setChromosomesByTaxid e t chrs ba s = Inr (ba', s')"
  shows "ba' = ba @ sortedBands e (taxonBands e t chrs s) \<and>
         (\<forall>ba2. setChromosomesByTaxid e t chrs ba2 s =
                  Inr (ba2 @ sortedBands e (taxonBands e t chrs s), s'))"
proof (cases "coordinateSystem s = ''iscn'' \<or> multiorganism (config s) \<noteq> JFalsy")
  case True
  with assms have "setChrsByTaxidsWithBands e t chrs ba s = Inr (ba', s')"
    by (simp add: setChromosomesByTaxid_def)
  from setChrsByTaxidsWithBands_result[OF this True] True show ?thesis
    by (simp add: setChromosomesByTaxid_def)
next
  case False
  then have tb: "sortedBands e (taxonBands e t chrs s) = []"
    by (simp add: taxonBands_def sortedBands_Nil)
  from False assms show ?thesis
    by (auto simp: tb setChromosomesByTaxid_def split: chrsref.splits option.splits sum.splits if_splits)
qed

lemma taxidsLoop_result:
  "taxidsLoop e ts chrs ba s = Inr (ba', s') \<Longrightarrow>
     ba' = ba @ concat (map (sortedBands e) (runBands e ts chrs s)) \<and>
     length (runBands e ts chrs s) = length ts"
proof (induction ts arbitrary: ba s)
  case Nil
  then show ?case by simp
next
  case (Cons t ts)
  from Cons.prems obtain ba1 s1 where
    st: "setChromosomesByTaxid e t chrs ba s = Inr (ba1, s1)" and
    l: "taxidsLoop e ts chrs ba1 s1 = Inr (ba', s')"
    by (auto split: sum.splits)
  from setChromosomesByTaxid_result[OF st] Cons.IH[OF l] show ?case by simp
qed

text \<open>
  Claim C8. Take a configuration whose taxids and \<open>chrs\<close> are resolved. On the path with bands,
  if the parser keeps its contract on the band data and \<open>config.chromosomes\<close> is missing,
  \<open>null\<close> or an object, \<open>processBandData\<close> returns. Whenever it returns, on any path, the array
  it returns is the concatenation, over the resolved taxids in their order, of the band lists of
  each taxon in the sorted order of its chromosome names, one element per chromosome; a taxon
  assembled without bands adds nothing.
\<close>

theorem bands_array_is_concatenation_over_taxa:
  assumes "setTaxids s = Inr (tx, ts, s1)" and "processBandData_chrs s1 = Inr (chrs, s2)"
  shows "(parserContract e bd ts \<and> bandData s = Some bd \<and>
          (coordinateSystem s = ''iscn'' \<or> multiorganism (config s) \<noteq> JFalsy) \<and>
          (chromosomes (config s) = Absent \<or> chromosomes (config s) = Null \<or>
           (\<exists>a. chromosomes (config s) = Ref a \<and> a < length (heap s))) \<longrightarrow>
            (\<exists>ba0 s0. processBandData e s = Inr (ba0, s0)))
       \<and> (processBandData e s = Inr (ba, s') \<longrightarrow>
            ba = concat (map (sortedBands e) (runBands e ts chrs s2)) \<and>
            length (runBands e ts chrs s2) = length ts)"
proof (intro conjI impI)
  assume "parserContract e bd ts \<and> bandData s = Some bd \<and>
          (coordinateSystem s = ''iscn'' \<or> multiorganism (config s) \<noteq> JFalsy) \<and>
          (chromosomes (config s) = Absent \<or> chromosomes (config s) = Null \<or>
           (\<exists>a. chromosomes (config s) = Ref a \<and> a < length (heap s)))"
  then show "\<exists>ba0 s0. processBandData e s = Inr (ba0, s0)"
    using processBandData_banded_returns[OF assms, of e bd] by blast
next
  assume "processBandData e s = Inr (ba, s')"
  with assms have "taxidsLoop e ts chrs [] s2 = Inr (ba, s')"
    by (simp add: processBandData_def)
  from taxidsLoop_result[OF this]
  show "ba = concat (map (sortedBands e) (runBands e ts chrs s2))"
    and "length (runBands e ts chrs s2) = length ts" by simp_all
qed

theorem bands_array_is_concatenation_over_taxa_witness:
  "\<exists>s'. processBandData env_ex ideo_multi =
          Inr (concat (map (sortedBands env_ex)
                 [[(''chr10'', [band_ex 30 300]), (''chr2'', [band_ex 20 200, band_ex 50 500]),
                   (''chr1'', [band_ex 40 400, band_ex 100 900])],
                  [(''chr1'', [band_ex 80 1200])]]), s') \<and>
        concat (map (sortedBands env_ex)
                 [[(''chr10'', [band_ex 30 300]), (''chr2'', [band_ex 20 200, band_ex 50 500]),
                   (''chr1'', [band_ex 40 400, band_ex 100 900])],
                  [(''chr1'', [band_ex 80 1200])]]) =
          [[band_ex 40 400, band_ex 100 900], [band_ex 20 200, band_ex 50 500], [band_ex 30 300],
           [band_ex 80 1200]]"
proof -
  let ?bd = "[Taxid 9606 \<mapsto> [''human''], Taxid 10090 \<mapsto> [''mouse'']]"
  have t: "setTaxids ideo_multi =
             Inr (Taxid 10090, [Taxid 9606, Taxid 10090], ideo_multi\<lparr>coordinateSystem := ''bp''\<rparr>)"
    by (simp add: setTaxids_def ideo_multi_def)
  have c: "processBandData_chrs (ideo_multi\<lparr>coordinateSystem := ''bp''\<rparr>) =
             Inr (Ref 0, ideo_multi\<lparr>coordinateSystem := ''bp''\<rparr>)"
    by (simp add: ideo_multi_def processBandData_chrs_def)
  have k: "parserContract env_ex ?bd [Taxid 9606, Taxid 10090]"
    by (simp add: parserContract_def env_ex_def parse_ex_def)
  have d: "bandData ideo_multi = Some ?bd" and o: "chromosomes (config ideo_multi) = Ref 0"
    and h: "0 < length (heap ideo_multi)"
    and p: "coordinateSystem ideo_multi = ''iscn'' \<or> multiorganism (config ideo_multi) \<noteq> JFalsy"
    by (simp_all add: ideo_multi_def)
  from bands_array_is_concatenation_over_taxa[OF t c, of env_ex ?bd, THEN conjunct1] k d o h p
  have "\<exists>ba0 s0. processBandData env_ex ideo_multi = Inr (ba0, s0)" by simp
  then obtain ba s' where r: "processBandData env_ex ideo_multi = Inr (ba, s')" by blast
  have rb: "runBands env_ex [Taxid 9606, Taxid 10090] (Ref 0) (ideo_multi\<lparr>coordinateSystem := ''bp''\<rparr>) =
              [[(''chr10'', [band_ex 30 300]), (''chr2'', [band_ex 20 200, band_ex 50 500]),
                (''chr1'', [band_ex 40 400, band_ex 100 900])],
               [(''chr1'', [band_ex 80 1200])]]"
    by (simp add: ideo_multi_def taxonBands_def ex_defs)
  have v: "concat (map (sortedBands env_ex)
                 [[(''chr10'', [band_ex 30 300]), (''chr2'', [band_ex 20 200, band_ex 50 500]),
                   (''chr1'', [band_ex 40 400, band_ex 100 900])],
                  [(''chr1'', [band_ex 80 1200])]]) =
          [[band_ex 40 400, band_ex 100 900], [band_ex 20 200, band_ex 50 500], [band_ex 30 300],
           [band_ex 80 1200]]"
    by (simp add: sortedBands_def bandsOf_def env_ex_def js_sort_def naturalSort_spec_def
                  natural_key_def is_digit_def)
  from bands_array_is_concatenation_over_taxa
         [OF t c, of env_ex ?bd ba s', THEN conjunct2, unfolded rb] r v
  show ?thesis by auto
qed

subsection \<open>The chromosome count\<close>

lemma get_chromosomes_new:
  "chromosomes (config s) = Absent \<or> chromosomes (config s) = Null \<Longrightarrow>
     get_chromosomes (new_chromosomes s) u = None \<and> get_chromosomes s u = None"
  by (auto simp: get_chromosomes_def new_chromosomes_def deref_def)

lemma setChromosomesByTaxid_count:
  assumes "setChromosomesByTaxid e t chrs ba s = Inr (ba', s')"
    and "coordinateSystem s = ''iscn'' \<or> coordinateSystem s = ''bp'' \<or> multiorganism (config s) \<noteq> JFalsy"
  shows "numChromosomes s' = numChromosomes s + storedLength s' t \<and>
         (\<forall>u. u \<noteq> t \<longrightarrow> get_chromosomes s' u = get_chromosomes s u)"
proof (cases "coordinateSystem s = ''iscn'' \<or> multiorganism (config s) \<noteq> JFalsy")
  case True
  with assms have r: "setChrsByTaxidsWithBands e t chrs ba s = Inr (ba', s')"
    by (simp add: setChromosomesByTaxid_def)
  let ?s1 = "if chromosomes (config s) = Absent \<or> chromosomes (config s) = Null
             then new_chromosomes s else s"
  from r obtain bd bbc s2 v where
    b: "bandData s = Some bd" "parseBands e (bd t) t (view (heap s) chrs) = Inr bbc"
    and p: "put_chromosomes ?s1 t
       (Arr (map (\<lambda>c. Some (Tok (ChrName c))) (js_sort (naturalSort e) (map fst bbc)))) = Inr s2"
    and l: "bandsLoop (js_sort (naturalSort e) (map fst bbc)) bbc t ba
       (s2\<lparr>numChromosomes := numChromosomes s2 + cval_length v\<rparr>) = Inr (ba', s')"
    by (rule setChrsByTaxidsWithBands_InrD)
  from setChrsByTaxidsWithBands_stored[OF r b]
  have n: "numChromosomes s' = numChromosomes s + storedLength s' t"
    by (simp add: storedLength_def length_js_sort)
  have f: "get_chromosomes s' u = get_chromosomes s u" if "u \<noteq> t" for u
  proof -
    have "get_chromosomes s' u = get_chromosomes s2 u"
      using bandsLoop_frame[OF l] by (intro get_chromosomes_cong) simp_all
    also have "\<dots> = get_chromosomes ?s1 u" using p that by (rule put_get_chromosomes_other)
    also have "\<dots> = get_chromosomes s u" using get_chromosomes_new[of s u] by auto
    finally show ?thesis .
  qed
  from n f show ?thesis by simp
next
  case False
  with assms(2) have c: "multiorganism (config s) = JFalsy" "coordinateSystem s = ''bp''" by auto
  from assms(1) c obtain a obj s1 v obj' where
    p: "put_chromosomes s t (Arr (array_elems obj)) = Inr s1" and g: "get_chromosomes s1 t = Some v"
    and l: "bpLoop (array_elems obj') (s1\<lparr>numChromosomes := numChromosomes s1 + cval_length v\<rparr>) = Inr s'"
    by (rule setChromosomesByTaxid_bp_InrD)
  have e: "get_chromosomes s' u = get_chromosomes s1 u" for u
    using bpLoop_frame[OF l] by (intro get_chromosomes_cong) simp_all
  have "numChromosomes s' = numChromosomes s + cval_length v"
    using bpLoop_frame[OF l] put_chromosomes_frame[OF p] by simp
  then have n: "numChromosomes s' = numChromosomes s + storedLength s' t"
    by (simp add: storedLength_def e g)
  have f: "get_chromosomes s' u = get_chromosomes s u" if "u \<noteq> t" for u
    using put_get_chromosomes_other[OF p that] by (simp add: e)
  from n f show ?thesis by simp
qed

lemma taxidsLoop_count:
  "taxidsLoop e ts chrs ba s = Inr (ba', s') \<Longrightarrow>
   coordinateSystem s = ''iscn'' \<or> coordinateSystem s = ''bp'' \<or> multiorganism (config s) \<noteq> JFalsy \<Longrightarrow>
   distinct ts \<Longrightarrow>
     numChromosomes s' = numChromosomes s + sum_list (map (storedLength s') ts) \<and>
     (\<forall>u. u \<notin> set ts \<longrightarrow> get_chromosomes s' u = get_chromosomes s u)"
proof (induction ts arbitrary: ba s)
  case Nil
  then show ?case by simp
next
  case (Cons t ts)
  from Cons.prems(1) obtain ba1 s1 where
    st: "setChromosomesByTaxid e t chrs ba s = Inr (ba1, s1)" and
    l: "taxidsLoop e ts chrs ba1 s1 = Inr (ba', s')"
    by (auto split: sum.splits)
  note c = setChromosomesByTaxid_count[OF st Cons.prems(2)]
  from setChromosomesByTaxid_flags[OF st] Cons.prems(2)
  have pth: "coordinateSystem s1 = ''iscn'' \<or> coordinateSystem s1 = ''bp'' \<or> multiorganism (config s1) \<noteq> JFalsy"
    by simp
  from Cons.prems(3) have d: "distinct ts" "t \<notin> set ts" by simp_all
  note ih = Cons.IH[OF l pth d(1)]
  from ih d(2) have "get_chromosomes s' t = get_chromosomes s1 t" by simp
  then have sl: "storedLength s' t = storedLength s1 t" by (simp add: storedLength_def)
  from c ih sl show ?case by simp
qed

text \<open>
  Claim C6. On the path with bands and on the path without (coordinate system \<open>iscn\<close> or
  \<open>bp\<close>, or \<open>multiorganism\<close> truthy), a call of \<open>setChromosomesByTaxid\<close> that returns has
  added to \<open>numChromosomes\<close> the length of the list it stored in \<open>config.chromosomes[taxid]\<close>.
  When \<open>processBandData\<close> returns and the resolved taxids are distinct, \<open>numChromosomes\<close> is its
  former value plus the sum over the taxids of the length of the list stored for each.
\<close>

theorem numChromosomes_is_sum_of_stored_lengths:
  "(setChromosomesByTaxid e t chrs ba0 sa = Inr (ba1, sb) \<and>
    (coordinateSystem sa = ''iscn'' \<or> coordinateSystem sa = ''bp'' \<or>
     multiorganism (config sa) \<noteq> JFalsy) \<longrightarrow>
      numChromosomes sb = numChromosomes sa + storedLength sb t)
   \<and> (setTaxids s = Inr (tx, ts, s1) \<and> processBandData e s = Inr (ba, s') \<and>
      (coordinateSystem s = ''iscn'' \<or> coordinateSystem s = ''bp'' \<or>
       multiorganism (config s) \<noteq> JFalsy) \<and> distinct ts \<longrightarrow>
      numChromosomes s' = numChromosomes s + sum_list (map (storedLength s') ts))"
proof (intro conjI impI)
  assume "setChromosomesByTaxid e t chrs ba0 sa = Inr (ba1, sb) \<and>
    (coordinateSystem sa = ''iscn'' \<or> coordinateSystem sa = ''bp'' \<or>
     multiorganism (config sa) \<noteq> JFalsy)"
  then show "numChromosomes sb = numChromosomes sa + storedLength sb t"
    using setChromosomesByTaxid_count[of e t chrs ba0 sa ba1 sb] by simp
next
  assume h: "setTaxids s = Inr (tx, ts, s1) \<and> processBandData e s = Inr (ba, s') \<and>
      (coordinateSystem s = ''iscn'' \<or> coordinateSystem s = ''bp'' \<or>
       multiorganism (config s) \<noteq> JFalsy) \<and> distinct ts"
  then have t: "setTaxids s = Inr (tx, ts, s1)" and d: "distinct ts"
    and pth: "coordinateSystem s = ''iscn'' \<or> coordinateSystem s = ''bp'' \<or>
       multiorganism (config s) \<noteq> JFalsy" by simp_all
  from h obtain chrs' s2 where
    b: "processBandData_chrs s1 = Inr (chrs', s2)" and c: "taxidsLoop e ts chrs' [] s2 = Inr (ba, s')"
    by (auto simp: processBandData_def split: sum.splits)
  have m: "multiorganism (config s2) = multiorganism (config s)" "numChromosomes s2 = numChromosomes s"
    using setTaxids_frame[OF t] processBandData_chrs_frame[OF b] by simp_all
  have "coordinateSystem s2 = ''iscn'' \<or> coordinateSystem s2 = ''bp'' \<or>
        multiorganism (config s2) \<noteq> JFalsy"
  proof (cases "multiorganism (config s) = JFalsy")
    case True
    with pth setTaxids_frame[OF t] processBandData_chrs_frame[OF b] show ?thesis by simp
  next
    case False
    with m show ?thesis by simp
  qed
  from taxidsLoop_count[OF c this d] m
  show "numChromosomes s' = numChromosomes s + sum_list (map (storedLength s') ts)" by simp
qed

theorem numChromosomes_is_sum_of_stored_lengths_witness:
  "\<exists>ba1 sb ba s'.
      setChromosomesByTaxid env_ex (Taxid 9606) Undef [] ideo_iscn = Inr (ba1, sb) \<and>
      numChromosomes sb = storedLength sb (Taxid 9606) \<and>
      processBandData env_ex ideo_multi = Inr (ba, s') \<and> numChromosomes s' = 4 \<and>
      storedLength s' (Taxid 9606) = 3 \<and> storedLength s' (Taxid 10090) = 1"
proof -
  from ex_iscn_step obtain ba1 sb where
    q: "setChromosomesByTaxid env_ex (Taxid 9606) Undef [] ideo_iscn = Inr (ba1, sb)"
    by (auto simp: setChromosomesByTaxid_def ideo_iscn_def)
  from ex_multi_run obtain ba s' where
    r: "processBandData env_ex ideo_multi = Inr (ba, s')"
       "get_chromosomes s' (Taxid 9606) =
          Some (Arr [Some (Tok (ChrName ''chr1'')), Some (Tok (ChrName ''chr2'')),
                     Some (Tok (ChrName ''chr10''))])"
       "get_chromosomes s' (Taxid 10090) = Some (Arr [Some (Tok (ChrName ''chr1''))])"
    by blast
  have t: "setTaxids ideo_multi =
             Inr (Taxid 10090, [Taxid 9606, Taxid 10090], ideo_multi\<lparr>coordinateSystem := ''bp''\<rparr>)"
    by (simp add: setTaxids_def ideo_multi_def)
  have st: "storedLength s' (Taxid 9606) = 3" "storedLength s' (Taxid 10090) = 1"
    using r by (simp_all add: storedLength_def)
  from numChromosomes_is_sum_of_stored_lengths
         [of env_ex "Taxid 9606" Undef "[]" ideo_iscn ba1 sb ideo_multi "Taxid 10090"
             "[Taxid 9606, Taxid 10090]" "ideo_multi\<lparr>coordinateSystem := ''bp''\<rparr>" ba s']
       q t r(1) st
  have "numChromosomes sb = storedLength sb (Taxid 9606) \<and> numChromosomes s' = 4"
    by (simp add: ideo_multi_def ideo_iscn_def)
  with q r st show ?thesis by blast
qed

subsection \<open>The maxima of a whole run\<close>

lemma bounded_taxonEntry:
  "bounded ml \<Longrightarrow> bp (taxonEntry ml t) \<le> bp ml \<and> iscn (taxonEntry ml t) \<le> iscn ml"
  by (auto simp: bounded_def taxonEntry_def split: option.splits)

lemma recordLength_global:
  assumes "bounded ml"
  shows "bp (recordLength t l ml) = max (bp l) (bp ml)" "iscn (recordLength t l ml) = max (iscn l) (iscn ml)"
  using bounded_taxonEntry[OF assms, of t] by (auto simp: recordLength_def max_def)

lemma recordLength_entry:
  "taxonEntry (recordLength t l ml) u =
     (if u = t then (taxonEntry ml t)\<lparr>iscn := max (iscn l) (iscn (taxonEntry ml t)),
                                      bp := max (bp l) (bp (taxonEntry ml t))\<rparr>
      else taxonEntry ml u)"
  by (simp add: recordLength_def taxonEntry_def max.commute)

lemma recordLength_dom:
  "byTaxid (recordLength t l ml) u = None \<longleftrightarrow> u \<noteq> t \<and> byTaxid ml u = None"
  by (simp add: recordLength_def)

lemma recordLength_bounded:
  assumes "bounded ml"
  shows "bounded (recordLength t l ml)"
  unfolding bounded_def
proof (intro allI impI)
  fix u m assume um: "byTaxid (recordLength t l ml) u = Some m"
  note g = recordLength_global[OF assms, of t l]
  note e = bounded_taxonEntry[OF assms, of t]
  show "bp m \<le> bp (recordLength t l ml) \<and> iscn m \<le> iscn (recordLength t l ml)"
  proof (cases "u = t")
    case True
    with um have "bp m = max (bp (taxonEntry ml t)) (bp l)" "iscn m = max (iscn (taxonEntry ml t)) (iscn l)"
      by (auto simp: recordLength_def)
    with g e show ?thesis by auto
  next
    case False
    with um have "byTaxid ml u = Some m" by (simp add: recordLength_def)
    with assms have "bp m \<le> bp ml" "iscn m \<le> iscn ml" by (simp_all add: bounded_def)
    with g show ?thesis by auto
  qed
qed

lemma recordAll_Cons: "recordAll ((t, l) # evs) ml = recordAll evs (recordLength t l ml)"
  by (simp add: recordAll_def)

lemma recordAll_append: "recordAll (xs @ ys) ml = recordAll ys (recordAll xs ml)"
  by (simp add: recordAll_def)

lemma recordAll_maxima:
  "bounded ml \<Longrightarrow>
     bounded (recordAll evs ml) \<and>
     bp (recordAll evs ml) = fold max (map (bp \<circ> snd) evs) (bp ml) \<and>
     iscn (recordAll evs ml) = fold max (map (iscn \<circ> snd) evs) (iscn ml) \<and>
     bp (taxonEntry (recordAll evs ml) t) =
       fold max (map bp (map snd (filter (\<lambda>(u, l). u = t) evs))) (bp (taxonEntry ml t)) \<and>
     iscn (taxonEntry (recordAll evs ml) t) =
       fold max (map iscn (map snd (filter (\<lambda>(u, l). u = t) evs))) (iscn (taxonEntry ml t)) \<and>
     (byTaxid (recordAll evs ml) t = None \<longleftrightarrow>
        byTaxid ml t = None \<and> filter (\<lambda>(u, l). u = t) evs = [])"
proof (induction evs arbitrary: ml)
  case Nil
  then show ?case by (simp add: recordAll_def)
next
  case (Cons ev evs)
  obtain u l where ev: "ev = (u, l)" by (cases ev)
  note b = recordLength_bounded[OF Cons.prems, of u l]
  note ih = Cons.IH[OF b]
  show ?case
    using ih by (simp add: ev recordAll_Cons recordLength_global[OF Cons.prems] recordLength_entry recordLength_dom)
qed


lemma bandsLoop_recordAll:
  "bandsLoop cs bbc t ba s = Inr (ba', s') \<Longrightarrow>
     maxLength s' = recordAll (map (\<lambda>bands. (t, chrLength bands)) (bandsOf bbc cs)) (maxLength s)"
proof (induction cs arbitrary: ba s)
  case Nil
  then show ?case by (simp add: bandsOf_def recordAll_def)
next
  case (Cons c cs)
  from Cons.prems obtain x s1 where
    g: "getBandsArray c bbc t s = Inr (x, s1)" and l: "bandsLoop cs bbc t (ba @ x) s1 = Inr (ba', s')"
    by (auto split: sum.splits)
  from g obtain bands where b: "map_of bbc c = Some bands"
    "s1 = s\<lparr>maxLength := recordLength t (chrLength bands) (maxLength s)\<rparr>"
    by (rule getBandsArray_InrD)
  from Cons.IH[OF l] b show ?case by (simp add: bandsOf_Cons recordAll_Cons)
qed

lemma setChromosomesByTaxid_recordAll:
  assumes "setChromosomesByTaxid e t chrs ba s = Inr (ba', s')"
    and "coordinateSystem s = ''iscn'' \<or> multiorganism (config s) \<noteq> JFalsy"
  shows "maxLength s' =
           recordAll (map (\<lambda>bands. (t, chrLength bands)) (sortedBands e (taxonBands e t chrs s)))
             (maxLength s)"
proof -
  from assms have r: "setChrsByTaxidsWithBands e t chrs ba s = Inr (ba', s')"
    by (simp add: setChromosomesByTaxid_def)
  then obtain bd bbc s2 v where
    b: "bandData s = Some bd" "parseBands e (bd t) t (view (heap s) chrs) = Inr bbc"
    and p: "put_chromosomes (if chromosomes (config s) = Absent \<or> chromosomes (config s) = Null
                      then new_chromosomes s else s) t
       (Arr (map (\<lambda>c. Some (Tok (ChrName c))) (js_sort (naturalSort e) (map fst bbc)))) = Inr s2"
    and l: "bandsLoop (js_sort (naturalSort e) (map fst bbc)) bbc t ba
       (s2\<lparr>numChromosomes := numChromosomes s2 + cval_length v\<rparr>) = Inr (ba', s')"
    by (rule setChrsByTaxidsWithBands_InrD)
  have tb: "taxonBands e t chrs s = bbc" using assms(2) b by (rule taxonBands_banded)
  from put_chromosomes_frame[OF p] have "maxLength s2 = maxLength s"
    by (simp add: new_chromosomes_frame)
  with bandsLoop_recordAll[OF l] show ?thesis by (simp add: tb sortedBands_def)
qed

lemma runLengths_Cons:
  "runLengths e (t # ts) (bbc # rb) =
     map (\<lambda>bands. (t, chrLength bands)) (sortedBands e bbc) @ runLengths e ts rb"
  by (simp add: runLengths_def)

lemma taxidsLoop_recordAll:
  "taxidsLoop e ts chrs ba s = Inr (ba', s') \<Longrightarrow>
   coordinateSystem s = ''iscn'' \<or> multiorganism (config s) \<noteq> JFalsy \<Longrightarrow>
     maxLength s' = recordAll (runLengths e ts (runBands e ts chrs s)) (maxLength s)"
proof (induction ts arbitrary: ba s)
  case Nil
  then show ?case by (simp add: runLengths_def recordAll_def)
next
  case (Cons t ts)
  from Cons.prems(1) obtain ba1 s1 where
    st: "setChromosomesByTaxid e t chrs ba s = Inr (ba1, s1)" and
    l: "taxidsLoop e ts chrs ba1 s1 = Inr (ba', s')"
    by (auto split: sum.splits)
  from setChromosomesByTaxid_flags[OF st] Cons.prems(2)
  have pth: "coordinateSystem s1 = ''iscn'' \<or> multiorganism (config s1) \<noteq> JFalsy" by simp
  from setChromosomesByTaxid_result[OF st]
  have e0: "setChromosomesByTaxid e t chrs [] s = Inr (sortedBands e (taxonBands e t chrs s), s1)"
    by simp
  from Cons.IH[OF l pth] setChromosomesByTaxid_recordAll[OF st Cons.prems(2)] e0
  show ?case by (simp add: runLengths_Cons recordAll_append)
qed

lemma runLengths_snd:
  "length rb = length ts \<Longrightarrow>
     map snd (runLengths e ts rb) = map chrLength (concat (map (sortedBands e) rb))"
proof (induction ts arbitrary: rb)
  case Nil
  then show ?case by (simp add: runLengths_def)
next
  case (Cons t ts)
  then obtain bbc rb' where rb: "rb = bbc # rb'" "length rb' = length ts" by (cases rb) auto
  from Cons.IH[OF rb(2)] show ?case by (simp add: rb(1) runLengths_Cons comp_def)
qed

lemma fold_max_0:
  fixes xs :: "nat list"
  shows "xs \<noteq> [] \<Longrightarrow> fold max xs 0 = Max (set xs)"
proof (cases xs)
  case Nil
  assume "xs \<noteq> []"
  with Nil show ?thesis by simp
next
  case (Cons a list)
  from Max.set_eq_fold[of a list] show ?thesis by (simp add: Cons)
qed

lemma bounded_fresh: "bounded fresh_maxLength"
  by (simp add: bounded_def fresh_maxLength_def)

subsection \<open>The maxima, stated\<close>

lemma processBandData_maxima:
  assumes "setTaxids s = Inr (tx, ts, s1)" and "processBandData_chrs s1 = Inr (chrs, s2)"
    and "processBandData e s = Inr (ba, s')"
    and "coordinateSystem s = ''iscn'' \<or> multiorganism (config s) \<noteq> JFalsy"
    and "maxLength s = fresh_maxLength"
  shows "(taxonLengths e ts (runBands e ts chrs s2) t \<noteq> [] \<longrightarrow>
            byTaxid (maxLength s') t =
              Some \<lparr>bp = Max (set (map bp (taxonLengths e ts (runBands e ts chrs s2) t))),
                    iscn = Max (set (map iscn (taxonLengths e ts (runBands e ts chrs s2) t)))\<rparr>)
       \<and> (taxonLengths e ts (runBands e ts chrs s2) t = [] \<longrightarrow> byTaxid (maxLength s') t = None)
       \<and> bp (maxLength s') = Max (set (0 # map (bp \<circ> chrLength) ba))
       \<and> iscn (maxLength s') = Max (set (0 # map (iscn \<circ> chrLength) ba))"
proof -
  let ?rb = "runBands e ts chrs s2"
  let ?evs = "runLengths e ts ?rb"
  let ?ls = "taxonLengths e ts ?rb t"
  from assms(1-3) have l: "taxidsLoop e ts chrs [] s2 = Inr (ba, s')"
    by (simp add: processBandData_def)
  have m: "maxLength s2 = fresh_maxLength" "multiorganism (config s2) = multiorganism (config s)"
    using setTaxids_frame[OF assms(1)] processBandData_chrs_frame[OF assms(2)] assms(5) by simp_all
  have pth: "coordinateSystem s2 = ''iscn'' \<or> multiorganism (config s2) \<noteq> JFalsy"
  proof (cases "multiorganism (config s) = JFalsy")
    case True
    with assms(4) setTaxids_frame[OF assms(1)] processBandData_chrs_frame[OF assms(2)]
    show ?thesis by simp
  next
    case False
    with m show ?thesis by simp
  qed
  from taxidsLoop_recordAll[OF l pth] m
  have ml: "maxLength s' = recordAll ?evs fresh_maxLength" by simp
  note r = recordAll_maxima[OF bounded_fresh, of ?evs t, folded ml]
  from taxidsLoop_result[OF l] have ba: "ba = concat (map (sortedBands e) ?rb)"
    and len: "length ?rb = length ts" by simp_all
  have sn: "map snd ?evs = map chrLength ba"
    using runLengths_snd[OF len] ba by simp
  have g1: "map (bp \<circ> snd) ?evs = map (bp \<circ> chrLength) ba"
    using arg_cong[OF sn, of "map bp"] by simp
  have g2: "map (iscn \<circ> snd) ?evs = map (iscn \<circ> chrLength) ba"
    using arg_cong[OF sn, of "map iscn"] by simp
  have gb: "bp (maxLength s') = Max (set (0 # map (bp \<circ> chrLength) ba))"
    using r by (simp only: g1 Max.set_eq_fold) (simp add: fresh_maxLength_def)
  have gi: "iscn (maxLength s') = Max (set (0 # map (iscn \<circ> chrLength) ba))"
    using r by (simp only: g2 Max.set_eq_fold) (simp add: fresh_maxLength_def)
  have fl: "filter (\<lambda>(u, l). u = t) ?evs = [] \<longleftrightarrow> ?ls = []"
    by (simp add: taxonLengths_def)
  have none: "?ls = [] \<longrightarrow> byTaxid (maxLength s') t = None"
    using r fl by (simp add: fresh_maxLength_def)
  have some: "byTaxid (maxLength s') t =
              Some \<lparr>bp = Max (set (map bp ?ls)), iscn = Max (set (map iscn ?ls))\<rparr>" if ne: "?ls \<noteq> []"
  proof -
    from r fl ne obtain mx where mx: "byTaxid (maxLength s') t = Some mx"
      by (auto simp: fresh_maxLength_def)
    then have te: "taxonEntry (maxLength s') t = mx" by (simp add: taxonEntry_def)
    have z: "bp (taxonEntry fresh_maxLength t) = 0" "iscn (taxonEntry fresh_maxLength t) = 0"
      by (simp_all add: taxonEntry_def fresh_maxLength_def)
    from r have "bp mx = fold max (map bp ?ls) 0" "iscn mx = fold max (map iscn ?ls) 0"
      by (simp_all add: te z taxonLengths_def)
    with ne have "bp mx = Max (set (map bp ?ls))" "iscn mx = Max (set (map iscn ?ls))"
      by (simp_all add: fold_max_0)
    with mx show ?thesis by simp
  qed
  from none some gb gi show ?thesis by blast
qed

text \<open>
  Claim C2. Take a configuration on the path with bands (coordinate system \<open>iscn\<close>, or
  \<open>multiorganism\<close> truthy) whose taxids and \<open>chrs\<close> are resolved, and a \<open>maxLength\<close> with both
  global maxima 0 and no entry. If the parser keeps its contract on the band data, and
  \<open>config.chromosomes\<close> is missing, \<open>null\<close> or an object, then \<open>processBandData\<close> returns. Whenever
  it returns, for every taxid with chromosomes \<open>maxLength[taxid].bp\<close> and
  \<open>maxLength[taxid].iscn\<close> are the largest \<open>bp.stop\<close> and the largest \<open>iscn.stop\<close> of the last
  bands of its chromosomes; a taxid without chromosomes has no entry; and \<open>maxLength.bp\<close> and
  \<open>maxLength.iscn\<close> are the largest such stops over all the chromosomes of the returned array
  (0 when there is none).
\<close>

theorem maxima_are_largest_stop_coordinates:
  assumes "setTaxids s = Inr (tx, ts, s1)" and "processBandData_chrs s1 = Inr (chrs, s2)"
    and "coordinateSystem s = ''iscn'' \<or> multiorganism (config s) \<noteq> JFalsy"
    and "maxLength s = fresh_maxLength"
  shows "(parserContract e bd ts \<and> bandData s = Some bd \<and>
          (chromosomes (config s) = Absent \<or> chromosomes (config s) = Null \<or>
           (\<exists>a. chromosomes (config s) = Ref a \<and> a < length (heap s))) \<longrightarrow>
            (\<exists>ba0 s0. processBandData e s = Inr (ba0, s0)))
       \<and> (processBandData e s = Inr (ba, s') \<longrightarrow>
            (taxonLengths e ts (runBands e ts chrs s2) t \<noteq> [] \<longrightarrow>
               byTaxid (maxLength s') t =
                 Some \<lparr>bp = Max (set (map bp (taxonLengths e ts (runBands e ts chrs s2) t))),
                       iscn = Max (set (map iscn (taxonLengths e ts (runBands e ts chrs s2) t)))\<rparr>)
          \<and> (taxonLengths e ts (runBands e ts chrs s2) t = [] \<longrightarrow>
               byTaxid (maxLength s') t = None)
          \<and> bp (maxLength s') = Max (set (0 # map (bp \<circ> chrLength) ba))
          \<and> iscn (maxLength s') = Max (set (0 # map (iscn \<circ> chrLength) ba)))"
proof (intro conjI impI)
  assume "parserContract e bd ts \<and> bandData s = Some bd \<and>
          (chromosomes (config s) = Absent \<or> chromosomes (config s) = Null \<or>
           (\<exists>a. chromosomes (config s) = Ref a \<and> a < length (heap s)))"
  then show "\<exists>ba0 s0. processBandData e s = Inr (ba0, s0)"
    using processBandData_banded_returns[OF assms(1,2) _ _ assms(3), of e bd] by blast
next
  assume r: "processBandData e s = Inr (ba, s')"
  note m = processBandData_maxima[OF assms(1,2) r assms(3,4), of t]
  from m show "bp (maxLength s') = Max (set (0 # map (bp \<circ> chrLength) ba))"
    and "iscn (maxLength s') = Max (set (0 # map (iscn \<circ> chrLength) ba))" by blast+
  { assume "taxonLengths e ts (runBands e ts chrs s2) t \<noteq> []"
    with m show "byTaxid (maxLength s') t =
                 Some \<lparr>bp = Max (set (map bp (taxonLengths e ts (runBands e ts chrs s2) t))),
                       iscn = Max (set (map iscn (taxonLengths e ts (runBands e ts chrs s2) t)))\<rparr>"
      by blast }
  { assume "taxonLengths e ts (runBands e ts chrs s2) t = []"
    with m show "byTaxid (maxLength s') t = None" by blast }
qed

lemma ex_multi_runBands:
  "runBands env_ex [Taxid 9606, Taxid 10090] (Ref 0) (ideo_multi\<lparr>coordinateSystem := ''bp''\<rparr>) =
     [[(''chr10'', [band_ex 30 300]), (''chr2'', [band_ex 20 200, band_ex 50 500]),
       (''chr1'', [band_ex 40 400, band_ex 100 900])],
      [(''chr1'', [band_ex 80 1200])]]"
  by (simp add: ideo_multi_def taxonBands_def ex_defs)

theorem maxima_are_largest_stop_coordinates_witness:
  "\<exists>ba s'. processBandData env_ex ideo_multi = Inr (ba, s') \<and>
      byTaxid (maxLength s') (Taxid 9606) = Some \<lparr>bp = 900, iscn = 100\<rparr> \<and>
      byTaxid (maxLength s') (Taxid 10090) = Some \<lparr>bp = 1200, iscn = 80\<rparr> \<and>
      byTaxid (maxLength s') (Taxid 7) = None \<and>
      bp (maxLength s') = 1200 \<and> iscn (maxLength s') = 100"
proof -
  let ?ba = "[[band_ex 40 400, band_ex 100 900], [band_ex 20 200, band_ex 50 500], [band_ex 30 300],
              [band_ex 80 1200]]"
  let ?bd = "[Taxid 9606 \<mapsto> [''human''], Taxid 10090 \<mapsto> [''mouse'']]"
  have t: "setTaxids ideo_multi =
             Inr (Taxid 10090, [Taxid 9606, Taxid 10090], ideo_multi\<lparr>coordinateSystem := ''bp''\<rparr>)"
    by (simp add: setTaxids_def ideo_multi_def)
  have c: "processBandData_chrs (ideo_multi\<lparr>coordinateSystem := ''bp''\<rparr>) =
             Inr (Ref 0, ideo_multi\<lparr>coordinateSystem := ''bp''\<rparr>)"
    by (simp add: ideo_multi_def processBandData_chrs_def)
  have p: "coordinateSystem ideo_multi = ''iscn'' \<or> multiorganism (config ideo_multi) \<noteq> JFalsy"
    and f: "maxLength ideo_multi = fresh_maxLength"
    by (simp_all add: ideo_multi_def)
  have k: "parserContract env_ex ?bd [Taxid 9606, Taxid 10090]"
    by (simp add: parserContract_def env_ex_def parse_ex_def)
  have d: "bandData ideo_multi = Some ?bd" and o: "chromosomes (config ideo_multi) = Ref 0"
    and h: "0 < length (heap ideo_multi)"
    by (simp_all add: ideo_multi_def)
  from maxima_are_largest_stop_coordinates[OF t c p f, of env_ex ?bd, THEN conjunct1] k d o h
  have "\<exists>ba0 s0. processBandData env_ex ideo_multi = Inr (ba0, s0)" by simp
  then obtain ba s' where r0: "processBandData env_ex ideo_multi = Inr (ba, s')" by blast
  with ex_multi_run have r: "processBandData env_ex ideo_multi = Inr (?ba, s')" by auto
  have l: "taxonLengths env_ex [Taxid 9606, Taxid 10090]
             [[(''chr10'', [band_ex 30 300]), (''chr2'', [band_ex 20 200, band_ex 50 500]),
               (''chr1'', [band_ex 40 400, band_ex 100 900])],
              [(''chr1'', [band_ex 80 1200])]] u =
           (if u = Taxid 9606 then [\<lparr>bp = 900, iscn = 100\<rparr>, \<lparr>bp = 500, iscn = 50\<rparr>, \<lparr>bp = 300, iscn = 30\<rparr>]
            else if u = Taxid 10090 then [\<lparr>bp = 1200, iscn = 80\<rparr>] else [])" for u
    by (simp add: taxonLengths_def runLengths_def sortedBands_def bandsOf_def chrLength_def
                  env_ex_def js_sort_def naturalSort_spec_def natural_key_def is_digit_def band_ex_def)
  from maxima_are_largest_stop_coordinates
         [OF t c p f, of env_ex ?bd ?ba s' "Taxid 9606", unfolded ex_multi_runBands l]
       maxima_are_largest_stop_coordinates
         [OF t c p f, of env_ex ?bd ?ba s' "Taxid 10090", unfolded ex_multi_runBands l]
       maxima_are_largest_stop_coordinates
         [OF t c p f, of env_ex ?bd ?ba s' "Taxid 7", unfolded ex_multi_runBands l]
       r
  have "byTaxid (maxLength s') (Taxid 9606) = Some \<lparr>bp = 900, iscn = 100\<rparr> \<and>
      byTaxid (maxLength s') (Taxid 10090) = Some \<lparr>bp = 1200, iscn = 80\<rparr> \<and>
      byTaxid (maxLength s') (Taxid 7) = None \<and>
      bp (maxLength s') = 1200 \<and> iscn (maxLength s') = 100"
    by (simp add: chrLength_def band_ex_def)
  with r show ?thesis by blast
qed

end
